theory Spec2Isabelle
  imports Main "HOL-Library.Char_ord" "HOL-Library.List_Lexorder"
begin

section \<open>Python values\<close>

text \<open>
  A Python \<open>str\<close> is modelled as a \<open>string\<close> whose characters are the code points
  below 256. An \<open>Optional[str]\<close> is a \<open>string option\<close>, an \<open>Optional[int]\<close> an
  \<open>int option\<close>, with Python's unbounded \<open>int\<close> as \<open>int\<close>.
\<close>

text \<open>\<open>str.lower()\<close> on the code points below 256: the ASCII capitals and the
  Latin-1 capitals (192..222 without the multiplication sign 215) move up by 32.\<close>

definition lower_char :: "char \<Rightarrow> char" where
  "lower_char c =
     (let n = (of_char c :: nat)
      in if (65 \<le> n \<and> n \<le> 90) \<or> (192 \<le> n \<and> n \<le> 222 \<and> n \<noteq> 215)
         then char_of (n + 32) else c)"

definition lower :: "string \<Rightarrow> string" where
  "lower s = map lower_char s"

text \<open>\<open>s.replace(a, b)\<close> for one-character \<open>a\<close> and \<open>b\<close>.\<close>

definition replace_char :: "char \<Rightarrow> char \<Rightarrow> string \<Rightarrow> string" where
  "replace_char a b s = map (\<lambda>c. if c = a then b else c) s"

text \<open>\<open>needle in hay\<close> on strings: some suffix of \<open>hay\<close> starts with \<open>needle\<close>.\<close>

fun starts_with :: "string \<Rightarrow> string \<Rightarrow> bool" where
  "starts_with [] hay = True"
| "starts_with (n # ns) [] = False"
| "starts_with (n # ns) (h # hs) = (n = h \<and> starts_with ns hs)"

fun str_in :: "string \<Rightarrow> string \<Rightarrow> bool" where
  "str_in needle [] = starts_with needle []"
| "str_in needle (h # hs) = (starts_with needle (h # hs) \<or> str_in needle hs)"

text \<open>Truthiness of optional arguments, and \<open>x or y\<close>.\<close>

fun truthy_str :: "string option \<Rightarrow> bool" where
  "truthy_str None = False"
| "truthy_str (Some s) = (s \<noteq> [])"

fun truthy_int :: "int option \<Rightarrow> bool" where
  "truthy_int None = False"
| "truthy_int (Some i) = (i \<noteq> 0)"

fun or_str :: "string option \<Rightarrow> string \<Rightarrow> string" where
  "or_str None d = d"
| "or_str (Some s) d = (if s \<noteq> [] then s else d)"

text \<open>\<open>delimiter.join(items)\<close>.\<close>

fun join :: "string \<Rightarrow> string list \<Rightarrow> string" where
  "join d [] = []"
| "join d [x] = x"
| "join d (x # y # ys) = x @ d @ join d (y # ys)"

text \<open>\<open>repr\<close> of a string that holds no quote, backslash or control character (all the
  strings the source prints through \<open>repr\<close> are such constants), of a list and of a
  non-empty set of them. The set is given as the list of its elements in iteration order.\<close>

definition repr_str :: "string \<Rightarrow> string" where
  "repr_str s = [CHR 0x27] @ s @ [CHR 0x27]"

definition repr_list :: "string list \<Rightarrow> string" where
  "repr_list xs = ''['' @ join '', '' (map repr_str xs) @ '']''"

definition repr_set :: "string list \<Rightarrow> string" where
  "repr_set xs = ''{'' @ join '', '' (map repr_str xs) @ ''}''"

text \<open>\<open>str(n)\<close> for integers.\<close>

definition digit_char :: "nat \<Rightarrow> char" where
  "digit_char n = ''0123456789'' ! (n mod 10)"

fun show_nat :: "nat \<Rightarrow> string" where
  "show_nat n = (if n < 10 then [digit_char n] else show_nat (n div 10) @ [digit_char n])"

declare show_nat.simps [simp del]

definition show_int :: "int \<Rightarrow> string" where
  "show_int i = (if i < 0 then ''-'' @ show_nat (nat (- i)) else show_nat (nat i))"

section \<open>What a call reads besides its arguments\<close>

text \<open>
  Three things a component of \<open>function_based.py\<close> reads are not arguments: the clock
  (\<open>datetime.datetime.now()\<close>), the process environment (\<open>os.environ\<close>) and the order in
  which the process iterates a set of strings (CPython seeds the hash of \<open>str\<close> per
  process). They are the fields of \<open>world\<close>. \<open>set_order w xs\<close> is the iteration order of
  the set whose elements are \<open>xs\<close>; it is a permutation of \<open>xs\<close>.
\<close>

record datetime =
  year :: nat
  month :: nat
  day :: nat
  hour :: nat
  minute :: nat
  second :: nat

record world =
  clock :: datetime
  environ :: "string \<Rightarrow> string option"
  set_order :: "string list \<Rightarrow> string list"

text \<open>\<open>strftime('%Y-%m-%d-%H-%M-%S')\<close>: every field zero-padded to its width.\<close>

definition pad :: "nat \<Rightarrow> string \<Rightarrow> string" where
  "pad w s = replicate (w - length s) CHR ''0'' @ s"

definition strftime :: "datetime \<Rightarrow> string" where
  "strftime t =
     pad 4 (show_nat (year t)) @ ''-'' @ pad 2 (show_nat (month t)) @ ''-'' @
     pad 2 (show_nat (day t)) @ ''-'' @ pad 2 (show_nat (hour t)) @ ''-'' @
     pad 2 (show_nat (minute t)) @ ''-'' @ pad 2 (show_nat (second t))"

section \<open>Errors\<close>

text \<open>
  Every \<open>raise\<close> of the source is a \<open>ValueError\<close> with its own message; the one other
  failure is the \<open>KeyError\<close> of \<open>os.environ[...]\<close>. Each raise site is a constructor,
  carrying what the message interpolates; \<open>error_message\<close> is the message.
\<close>

datatype error =
    UnsupportedLocationError string "string list"
  | UnknownReferenceModelError string "string list"
  | UnsupportedTaskError string
  | UnknownModelError "string list"
  | InvalidOverrideError
  | InvalidAcceleratorCountError
  | TooManyAcceleratorsError string nat
  | UnknownAcceleratorTypeError "string list"
  | KeyError string

fun error_message :: "error \<Rightarrow> string" where
  "error_message (UnsupportedLocationError location regions) =
     ''Unsupported accelerator location '' @ location @ ''. Must be one of'' @
     '' '' @ repr_set regions @ ''.''"
| "error_message (UnknownReferenceModelError large_model_reference supported_models) =
     ''Unknown reference model '' @ large_model_reference @ ''.'' @
     '' large_model_reference must be one of'' @
     '' '' @ repr_list supported_models @ ''.''"
| "error_message (UnsupportedTaskError task) =
     ''Task not recognized: '' @ task @ ''. Supported tasks are: \"summarization\",'' @
     '' \"question_answer\".''"
| "error_message (UnknownModelError accepted) =
     ''large_model_reference must be one of'' @ '' '' @ repr_list accepted @ ''.''"
| "error_message InvalidOverrideError = ''Accelerator type and count must both be set.''"
| "error_message InvalidAcceleratorCountError = ''accelerator_count must be at least 1.''"
| "error_message (TooManyAcceleratorsError accelerator_type limit) =
     ''Too many '' @ accelerator_type @ '' requested. Must be <= '' @ show_nat limit @ ''.''"
| "error_message (UnknownAcceleratorTypeError valid) =
     ''accelerator_type_override must be one of'' @ '' '' @ repr_list valid @ ''.''"
| "error_message (KeyError k) = repr_str k"

section \<open>resolve_machine_spec\<close>

record MachineSpec =
  machine_type :: string
  accelerator_type :: string
  accelerator_count :: int

definition tpu_regions :: "string list" where
  "tpu_regions = [''europe-west4'']"

definition gpu_regions :: "string list" where
  "gpu_regions = [''us-central1'']"

definition resolve_machine_spec :: "world \<Rightarrow> string \<Rightarrow> bool \<Rightarrow> error + MachineSpec" where
  "resolve_machine_spec w location use_test_spec =
     (if use_test_spec then
        Inr \<lparr>machine_type = ''a2-highgpu-1g'',
             accelerator_type = ''NVIDIA_TESLA_A100'',
             accelerator_count = 1\<rparr>
      else if location \<in> set tpu_regions then
        Inr \<lparr>machine_type = ''cloud-tpu'',
             accelerator_type = ''TPU_V3'',
             accelerator_count = 64\<rparr>
      else if location \<in> set gpu_regions then
        Inr \<lparr>machine_type = ''a2-ultragpu-8g'',
             accelerator_type = ''NVIDIA_A100_80GB'',
             accelerator_count = 8\<rparr>
      else Inl (UnsupportedLocationError location (set_order w (tpu_regions @ gpu_regions))))"

section \<open>resolve_image_uri\<close>

definition cpu_only_images :: "string list" where
  "cpu_only_images = [''text_importer'', ''text_comparison_importer'']"

definition backup_images :: "string list" where
  "backup_images =
     [''sft'', ''reward_model'', ''reinforcer'', ''infer'',
      ''text_importer'', ''text_comparison_importer'']"

definition resolve_image_uri ::
  "string \<Rightarrow> string \<Rightarrow> string \<Rightarrow> string \<Rightarrow> string \<Rightarrow> string \<Rightarrow> string \<Rightarrow> int \<Rightarrow> string" where
  "resolve_image_uri image_name project location artifact_registry image_name_prefix tag
       acc_type acc_count =
     (let accelerator_postfix =
            (if image_name \<in> set cpu_only_images then []
             else if acc_type = ''TPU_V3'' then ''_tpu''
             else if acc_type = ''NVIDIA_A100_80GB'' \<and> acc_count = 8
               then ''_gpu_test''
             else ''_gpu'');
          accelerator_postfix =
            (if image_name \<in> set backup_images \<and> accelerator_postfix \<noteq> ''_gpu_test''
             then accelerator_postfix @ ''_backup'' else accelerator_postfix)
      in location @ ''-docker.pkg.dev/'' @ project @ ''/'' @ artifact_registry @ ''/'' @
         image_name_prefix @ image_name @ accelerator_postfix @ '':'' @ tag)"

section \<open>resolve_data_paths\<close>

record DataPaths =
  tfds_data_dir :: string
  tfds_name :: string

text \<open>\<open>os.path.split\<close> of \<open>posixpath\<close>: cut after the last slash, then strip the trailing
  slashes of a head that is not all slashes.\<close>

definition path_split :: "string \<Rightarrow> string \<times> string" where
  "path_split p =
     (let tail = rev (takeWhile (\<lambda>c. c \<noteq> CHR ''/'') (rev p));
          head = rev (dropWhile (\<lambda>c. c \<noteq> CHR ''/'') (rev p));
          head = (if head \<noteq> [] \<and> head \<noteq> replicate (length head) CHR ''/''
                  then rev (dropWhile (\<lambda>c. c = CHR ''/'') (rev head)) else head)
      in (head, tail))"

definition resolve_data_paths :: "string \<Rightarrow> DataPaths" where
  "resolve_data_paths input_dataset =
     (case path_split input_dataset of
        (d, n) \<Rightarrow> \<lparr>tfds_data_dir = d, tfds_name = n\<rparr>)"

section \<open>resolve_reference_model_metadata\<close>

record ReferenceModelMetadata =
  large_model_reference :: string
  reference_model_path :: string
  reward_model_reference :: string
  reward_model_path :: string
  is_supported :: bool

record Outputs =
  out_large_model_reference :: string
  out_reference_model_path :: string
  out_reward_model_reference :: string
  out_reward_model_path :: string

definition reference_model_metadata ::
  "string \<Rightarrow> string \<Rightarrow> string \<Rightarrow> string \<Rightarrow> bool \<Rightarrow> ReferenceModelMetadata" where
  "reference_model_metadata lmr rmp rwr rwp supported =
     \<lparr>large_model_reference = lmr, reference_model_path = rmp,
      reward_model_reference = rwr, reward_model_path = rwp, is_supported = supported\<rparr>"

text \<open>The dict literal \<open>reference_models\<close>, in the order it is written; its keys are
  pairwise different.\<close>

definition reference_models :: "(string \<times> ReferenceModelMetadata) list" where
  "reference_models =
    [(''t5-small'', reference_model_metadata ''T5_SMALL''
        ''gs://t5-data/pretrained_models/t5x/flan_t5_small/''
        ''T5_SMALL'' ''gs://t5-data/pretrained_models/t5x/t5_1_1_small'' True),
     (''t5-large'', reference_model_metadata ''T5_LARGE''
        ''gs://t5-data/pretrained_models/t5x/flan_t5_large/''
        ''T5_LARGE'' ''gs://t5-data/pretrained_models/t5x/t5_1_1_large'' True),
     (''t5-xl'', reference_model_metadata ''T5_XL''
        ''gs://t5-data/pretrained_models/t5x/flan_t5_xl/''
        ''T5_XL'' ''gs://t5-data/pretrained_models/t5x/t5_1_1_xl'' True),
     (''t5-xxl'', reference_model_metadata ''T5_XXL''
        ''gs://t5-data/pretrained_models/t5x/flan_t5_xxl/''
        ''T5_XL'' ''gs://t5-data/pretrained_models/t5x/t5_1_1_xl'' True),
     (''palm-tiny'', reference_model_metadata ''PALM_TINY''
        ''gs://vertex-rlhf-restricted/pretrained_models/palm/t5x_palm_tiny/''
        ''PALM_TINY''
        ''gs://vertex-rlhf-restricted/pretrained_models/palm/t5x_palm_tiny/'' False),
     (''gecko'', reference_model_metadata ''GECKO''
        ''gs://vertex-rlhf-restricted/pretrained_models/palm/t5x_gecko/''
        ''GECKO''
        ''gs://vertex-rlhf-restricted/pretrained_models/palm/t5x_gecko_pretrain/'' False),
     (''otter'', reference_model_metadata ''OTTER''
        ''gs://vertex-rlhf-restricted/pretrained_models/palm/t5x_otter/''
        ''OTTER''
        ''gs://vertex-rlhf-restricted/pretrained_models/palm/t5x_otter_pretrain/'' False),
     (''bison'', reference_model_metadata ''BISON''
        ''gs://vertex-rlhf-restricted/pretrained_models/palm/t5x_bison/''
        ''OTTER''
        ''gs://vertex-rlhf-restricted/pretrained_models/palm/t5x_otter_pretrain/'' False),
     (''text-bison@001'', reference_model_metadata ''BISON''
        ''gs://vertex-rlhf-restricted/pretrained_models/palm/t5x_bison/''
        ''OTTER''
        ''gs://vertex-rlhf-restricted/pretrained_models/palm/t5x_otter_pretrain/'' True),
     (''chat-bison@001'', reference_model_metadata ''BISON''
        ''gs://vertex-rlhf-restricted/pretrained_models/palm/t5x_bison/''
        ''OTTER''
        ''gs://vertex-rlhf-restricted/pretrained_models/palm/t5x_otter_pretrain/'' True),
     (''elephant'', reference_model_metadata ''ELEPHANT''
        ''gs://vertex-rlhf-restricted/pretrained_models/palm/t5x_elephant/''
        ''OTTER''
        ''gs://vertex-rlhf-restricted/pretrained_models/palm/t5x_otter_pretrain/'' False),
     (''llama-2-7b'', reference_model_metadata ''LLAMA_2_7B''
        ''gs://vertex-rlhf-restricted/pretrained_models/llama/t5x_llama_2_7b/''
        ''LLAMA_2_7B''
        ''gs://vertex-rlhf-restricted/pretrained_models/llama/t5x_llama_2_7b/'' True),
     (''llama-2-13b'', reference_model_metadata ''LLAMA_2_13B''
        ''gs://vertex-rlhf-restricted/pretrained_models/llama/t5x_llama_2_13b/''
        ''LLAMA_2_13B''
        ''gs://vertex-rlhf-restricted/pretrained_models/llama/t5x_llama_2_13b/'' True),
     (''llama-2-7b-chat'', reference_model_metadata ''LLAMA_2_7B_CHAT''
        ''gs://vertex-rlhf-restricted/pretrained_models/llama/t5x_llama_2_7b_chat/''
        ''LLAMA_2_7B''
        ''gs://vertex-rlhf-restricted/pretrained_models/llama/t5x_llama_2_7b/'' True),
     (''llama-2-13b-chat'', reference_model_metadata ''LLAMA_2_13B_CHAT''
        ''gs://vertex-rlhf-restricted/pretrained_models/llama/t5x_llama_2_13b_chat/''
        ''LLAMA_2_13B''
        ''gs://vertex-rlhf-restricted/pretrained_models/llama/t5x_llama_2_13b/'' True)]"

definition reference_model_key :: "string \<Rightarrow> string" where
  "reference_model_key lmr = replace_char CHR ''_'' CHR ''-'' (lower lmr)"

text \<open>\<open>[k for k, v in reference_models.items() if v.is_supported]\<close>\<close>

definition supported_models :: "string list" where
  "supported_models = map fst (filter (\<lambda>(k, v). is_supported v) reference_models)"

definition resolve_reference_model_metadata ::
  "string \<Rightarrow> string option \<Rightarrow> error + Outputs" where
  "resolve_reference_model_metadata lmr rmp =
     (case map_of reference_models (reference_model_key lmr) of
        None \<Rightarrow> Inl (UnknownReferenceModelError lmr (sort supported_models))
      | Some reference_model \<Rightarrow>
          Inr \<lparr>out_large_model_reference = large_model_reference reference_model,
               out_reference_model_path =
                 or_str rmp (reference_model_path reference_model),
               out_reward_model_reference = reward_model_reference reference_model,
               out_reward_model_path = reward_model_path reference_model\<rparr>)"

section \<open>The scalar components\<close>

definition convert_to_delimited_string :: "string list \<Rightarrow> string \<Rightarrow> string" where
  "convert_to_delimited_string items delimiter = join delimiter items"

definition generate_default_instruction :: "string \<Rightarrow> int \<Rightarrow> string \<Rightarrow> error + string" where
  "generate_default_instruction task target_sequence_length instruction_override =
     (if instruction_override \<noteq> [] then Inr instruction_override
      else let task = lower task in
        if task = ''summarization'' then
          Inr (''Summarize in less than '' @ show_int target_sequence_length @ '' words.'')
        else if task = ''question_answer'' then
          Inr (''Answer the question in less than '' @ show_int target_sequence_length @
               '' words.'')
        else Inl (UnsupportedTaskError task))"

definition resolve_upload_location :: "world \<Rightarrow> string option \<Rightarrow> error + string" where
  "resolve_upload_location w upload_location =
     (if truthy_str upload_location then Inr (or_str upload_location [])
      else case environ w ''CLOUD_ML_REGION'' of
             None \<Rightarrow> Inl (KeyError ''CLOUD_ML_REGION'')
           | Some region \<Rightarrow> Inr region)"

definition resolve_regional_endpoint :: "string \<Rightarrow> string" where
  "resolve_regional_endpoint upload_location =
     ''https://'' @ upload_location @ ''-aiplatform.googleapis.com/ui''"

definition resolve_model_display_name :: "world \<Rightarrow> string \<Rightarrow> string option \<Rightarrow> string" where
  "resolve_model_display_name w lmr model_display_name =
     (let now = strftime (clock w)
      in or_str model_display_name (lower lmr @ ''-'' @ now))"

definition resolve_deploy_model :: "bool \<Rightarrow> string \<Rightarrow> bool" where
  "resolve_deploy_model deploy_model lmr =
     (if deploy_model \<and> lmr \<in> set [''BISON''] then True else False)"

definition value_exists :: "string option \<Rightarrow> bool" where
  "value_exists v = (if \<not> truthy_str v then False else True)"

definition resolve_candidate_columns :: "string list option \<Rightarrow> string list" where
  "resolve_candidate_columns candidate_columns =
     (case candidate_columns of
        None \<Rightarrow> [''candidate_0'', ''candidate_1'']
      | Some cs \<Rightarrow> if cs \<noteq> [] then cs else [''candidate_0'', ''candidate_1''])"

definition resolve_upload_model :: "string \<Rightarrow> bool" where
  "resolve_upload_model lmr = (if lmr \<in> set [''BISON''] then True else False)"

definition resolve_instruction :: "string \<Rightarrow> string option \<Rightarrow> string" where
  "resolve_instruction lmr instruction =
     (let instruction = or_str instruction []
      in if \<not> str_in ''chat'' (lower lmr) then instruction else [])"

definition identity :: "string \<Rightarrow> string" where
  "identity v = v"

section \<open>get_default_bulk_inference_machine_specs\<close>

text \<open>The machine types, accelerator types and base models the function names.\<close>

definition cloud_tpu :: string where "cloud_tpu = ''cloud-tpu''"
definition ultra_gpu_1g :: string where "ultra_gpu_1g = ''a2-ultragpu-1g''"
definition ultra_gpu_2g :: string where "ultra_gpu_2g = ''a2-ultragpu-2g''"
definition ultra_gpu_4g :: string where "ultra_gpu_4g = ''a2-ultragpu-4g''"
definition ultra_gpu_8g :: string where "ultra_gpu_8g = ''a2-ultragpu-8g''"
definition high_gpu_1g :: string where "high_gpu_1g = ''a2-highgpu-1g''"
definition high_gpu_2g :: string where "high_gpu_2g = ''a2-highgpu-2g''"
definition high_gpu_4g :: string where "high_gpu_4g = ''a2-highgpu-4g''"
definition high_gpu_8g :: string where "high_gpu_8g = ''a2-highgpu-8g''"
definition mega_gpu_16g :: string where "mega_gpu_16g = ''a2-megagpu-16g''"

definition tpu_v2 :: string where "tpu_v2 = ''TPU_V2''"
definition tpu_v3 :: string where "tpu_v3 = ''TPU_V3''"
definition nvidia_a100_40g :: string where "nvidia_a100_40g = ''NVIDIA_TESLA_A100''"
definition nvidia_a100_80g :: string where "nvidia_a100_80g = ''NVIDIA_A100_80GB''"

text \<open>The frozensets are lists of pairwise different elements; they are only tested for
  membership and sorted, and neither depends on the order of the list.\<close>

definition tpu_accelerator_types :: "string list" where
  "tpu_accelerator_types = [tpu_v2, tpu_v3]"

definition gpu_accelerator_types :: "string list" where
  "gpu_accelerator_types = [nvidia_a100_40g, nvidia_a100_80g]"

definition valid_accelerator_types :: "string list" where
  "valid_accelerator_types = gpu_accelerator_types @ tpu_accelerator_types"

definition palm_tiny :: string where "palm_tiny = ''PALM_TINY''"
definition gecko :: string where "gecko = ''GECKO''"
definition otter :: string where "otter = ''OTTER''"
definition bison :: string where "bison = ''BISON''"
definition elephant :: string where "elephant = ''ELEPHANT''"
definition t5_small :: string where "t5_small = ''T5_SMALL''"
definition t5_large :: string where "t5_large = ''T5_LARGE''"
definition t5_xl :: string where "t5_xl = ''T5_XL''"
definition t5_xxl :: string where "t5_xxl = ''T5_XXL''"

text \<open>The nested function \<open>_get_machine_type\<close>.\<close>

definition get_machine_type :: "string \<Rightarrow> int \<Rightarrow> error + string" where
  "get_machine_type acc_type acc_count =
     (if acc_count < 1 then Inl InvalidAcceleratorCountError
      else if acc_type \<in> set tpu_accelerator_types then Inr cloud_tpu
      else if acc_type = nvidia_a100_40g then
        (if acc_count = 1 then Inr high_gpu_1g
         else if acc_count = 2 then Inr high_gpu_2g
         else if acc_count \<le> 4 then Inr high_gpu_4g
         else if acc_count \<le> 8 then Inr high_gpu_8g
         else if acc_count \<le> 16 then Inr mega_gpu_16g
         else Inl (TooManyAcceleratorsError acc_type 16))
      else if acc_type = nvidia_a100_80g then
        (if acc_count = 1 then Inr ultra_gpu_1g
         else if acc_count = 2 then Inr ultra_gpu_2g
         else if acc_count \<le> 4 then Inr ultra_gpu_4g
         else if acc_count \<le> 8 then Inr ultra_gpu_8g
         else Inl (TooManyAcceleratorsError acc_type 8))
      else Inl (UnknownAcceleratorTypeError (sort valid_accelerator_types)))"

definition accepted_reference_models :: "string list" where
  "accepted_reference_models =
     [palm_tiny, gecko, otter, bison, elephant, t5_small, t5_large, t5_xl, t5_xxl]"

definition machine_spec :: "string \<Rightarrow> int \<Rightarrow> string \<Rightarrow> MachineSpec" where
  "machine_spec acc_type acc_count mach_type =
     \<lparr>machine_type = mach_type, accelerator_type = acc_type, accelerator_count = acc_count\<rparr>"

definition reference_model_to_model_specs_gpu :: "(string \<times> MachineSpec) list" where
  "reference_model_to_model_specs_gpu =
     [(palm_tiny, machine_spec nvidia_a100_40g 1 high_gpu_1g),
      (gecko, machine_spec nvidia_a100_40g 1 high_gpu_1g),
      (otter, machine_spec nvidia_a100_40g 2 high_gpu_2g),
      (bison, machine_spec nvidia_a100_40g 8 high_gpu_8g),
      (elephant, machine_spec nvidia_a100_40g 8 high_gpu_8g),
      (t5_small, machine_spec nvidia_a100_40g 1 high_gpu_1g),
      (t5_large, machine_spec nvidia_a100_40g 1 high_gpu_1g),
      (t5_xl, machine_spec nvidia_a100_40g 1 high_gpu_1g),
      (t5_xxl, machine_spec nvidia_a100_40g 2 high_gpu_2g)]"

text \<open>The tail of the function: the spec for the accelerator type and count in effect.\<close>

definition spec_for :: "string \<Rightarrow> int \<Rightarrow> error + MachineSpec" where
  "spec_for acc_type acc_count =
     (case get_machine_type acc_type acc_count of
        Inl e \<Rightarrow> Inl e
      | Inr mach_type \<Rightarrow> Inr (machine_spec acc_type acc_count mach_type))"

text \<open>
  \<open>any([t, c])\<close> and \<open>all([t, c])\<close> test truthiness. Where both overrides are truthy
  neither is \<open>None\<close>, so the last case of the inner \<open>case\<close> is never reached. The lookup
  in the table of GPU defaults raises \<open>KeyError\<close> on a missing key.
\<close>

definition get_default_bulk_inference_machine_specs ::
  "string \<Rightarrow> bool \<Rightarrow> string option \<Rightarrow> int option \<Rightarrow> error + MachineSpec" where
  "get_default_bulk_inference_machine_specs lmr use_gpu_defaults
       accelerator_type_override accelerator_count_override =
     (if lmr \<notin> set accepted_reference_models then
        Inl (UnknownModelError (sort accepted_reference_models))
      else
        case (if use_gpu_defaults then
                (case map_of reference_model_to_model_specs_gpu lmr of
                   None \<Rightarrow> Inl (KeyError lmr)
                 | Some d \<Rightarrow> Inr d)
              else Inr (machine_spec tpu_v3 32 cloud_tpu)) of
          Inl e \<Rightarrow> Inl e
        | Inr default_machine_spec \<Rightarrow>
            if truthy_str accelerator_type_override \<or> truthy_int accelerator_count_override
            then
              if \<not> (truthy_str accelerator_type_override \<and>
                     truthy_int accelerator_count_override)
              then Inl InvalidOverrideError
              else (case (accelerator_type_override, accelerator_count_override) of
                      (Some t, Some c) \<Rightarrow> spec_for t c
                    | _ \<Rightarrow> Inl InvalidOverrideError)
            else spec_for (accelerator_type default_machine_spec)
                          (accelerator_count default_machine_spec))"


section \<open>The components as one function of the world and the call\<close>

text \<open>
  Every component of the file that computes a value, as a call with its arguments.
  \<open>resolve_private_image_uri\<close> is \<open>resolve_image_uri\<close> with five arguments bound when
  the module is loaded, so a call of it is a call of \<open>resolve_image_uri\<close>;
  \<open>write_file\<close> and \<open>read_file\<close> act on the file system and are left out.
\<close>

datatype call =
    Resolve_machine_spec string bool
  | Resolve_image_uri string string string string string string string int
  | Resolve_data_paths string
  | Resolve_reference_model_metadata string "string option"
  | Convert_to_delimited_string "string list" string
  | Generate_default_instruction string int string
  | Resolve_upload_location "string option"
  | Resolve_regional_endpoint string
  | Resolve_model_display_name string "string option"
  | Resolve_deploy_model bool string
  | Value_exists "string option"
  | Resolve_candidate_columns "string list option"
  | Resolve_upload_model string
  | Resolve_instruction string "string option"
  | Identity string
  | Get_default_bulk_inference_machine_specs string bool "string option" "int option"

datatype returned =
    MachineSpec_out MachineSpec
  | Str_out string
  | Bool_out bool
  | Strs_out "string list"
  | Outputs_out Outputs
  | DataPaths_out DataPaths

fun run :: "world \<Rightarrow> call \<Rightarrow> error + returned" where
  "run w (Resolve_machine_spec location use_test_spec) =
     map_sum id MachineSpec_out (resolve_machine_spec w location use_test_spec)"
| "run w (Resolve_image_uri image_name project location artifact_registry image_name_prefix
           tag acc_type acc_count) =
     Inr (Str_out (resolve_image_uri image_name project location artifact_registry
                     image_name_prefix tag acc_type acc_count))"
| "run w (Resolve_data_paths input_dataset) =
     Inr (DataPaths_out (resolve_data_paths input_dataset))"
| "run w (Resolve_reference_model_metadata lmr rmp) =
     map_sum id Outputs_out (resolve_reference_model_metadata lmr rmp)"
| "run w (Convert_to_delimited_string items delimiter) =
     Inr (Str_out (convert_to_delimited_string items delimiter))"
| "run w (Generate_default_instruction task target_sequence_length instruction_override) =
     map_sum id Str_out
       (generate_default_instruction task target_sequence_length instruction_override)"
| "run w (Resolve_upload_location upload_location) =
     map_sum id Str_out (resolve_upload_location w upload_location)"
| "run w (Resolve_regional_endpoint upload_location) =
     Inr (Str_out (resolve_regional_endpoint upload_location))"
| "run w (Resolve_model_display_name lmr model_display_name) =
     Inr (Str_out (resolve_model_display_name w lmr model_display_name))"
| "run w (Resolve_deploy_model deploy_model lmr) =
     Inr (Bool_out (resolve_deploy_model deploy_model lmr))"
| "run w (Value_exists v) = Inr (Bool_out (value_exists v))"
| "run w (Resolve_candidate_columns candidate_columns) =
     Inr (Strs_out (resolve_candidate_columns candidate_columns))"
| "run w (Resolve_upload_model lmr) = Inr (Bool_out (resolve_upload_model lmr))"
| "run w (Resolve_instruction lmr instruction) =
     Inr (Str_out (resolve_instruction lmr instruction))"
| "run w (Identity v) = Inr (Str_out (identity v))"
| "run w (Get_default_bulk_inference_machine_specs lmr use_gpu_defaults
           accelerator_type_override accelerator_count_override) =
     map_sum id MachineSpec_out
       (get_default_bulk_inference_machine_specs lmr use_gpu_defaults
          accelerator_type_override accelerator_count_override)"

text \<open>The calls whose result is computed from the world: the display name when none is
  given, the upload location when none is given, and the message of the location error,
  which prints a set.\<close>

fun reads_world :: "call \<Rightarrow> bool" where
  "reads_world (Resolve_model_display_name lmr model_display_name) =
     (\<not> truthy_str model_display_name)"
| "reads_world (Resolve_upload_location upload_location) = (\<not> truthy_str upload_location)"
| "reads_world (Resolve_machine_spec location use_test_spec) =
     (\<not> use_test_spec \<and> location \<notin> set (tpu_regions @ gpu_regions))"
| "reads_world c = False"

text \<open>Two worlds: different clocks, different regions in the environment, and the two
  iteration orders of a set of two strings.\<close>

definition world_a :: world where
  "world_a =
     \<lparr>clock = \<lparr>year = 2023, month = 9, day = 5, hour = 7, minute = 30, second = 2\<rparr>,
      environ = (\<lambda>k. if k = ''CLOUD_ML_REGION'' then Some ''us-central1'' else None),
      set_order = (\<lambda>xs. xs)\<rparr>"

definition world_b :: world where
  "world_b =
     \<lparr>clock = \<lparr>year = 2024, month = 11, day = 21, hour = 16, minute = 4, second = 59\<rparr>,
      environ = (\<lambda>k. if k = ''CLOUD_ML_REGION'' then Some ''europe-west4'' else None),
      set_order = rev\<rparr>"

section \<open>Machine spec by location\<close>

text \<open>
  C2. With \<open>use_test_spec\<close> the result is the fixed test spec whatever the location;
  otherwise \<open>europe-west4\<close> gives the TPU spec, \<open>us-central1\<close> the 8-GPU spec, and every
  other location fails with the location error. The test flag is looked at first.
\<close>

theorem resolve_machine_spec_cases:
  "(use_test_spec \<longrightarrow>
      resolve_machine_spec w location use_test_spec =
        Inr \<lparr>machine_type = ''a2-highgpu-1g'', accelerator_type = ''NVIDIA_TESLA_A100'',
             accelerator_count = 1\<rparr>) \<and>
   (\<not> use_test_spec \<and> location = ''europe-west4'' \<longrightarrow>
      resolve_machine_spec w location use_test_spec =
        Inr \<lparr>machine_type = ''cloud-tpu'', accelerator_type = ''TPU_V3'',
             accelerator_count = 64\<rparr>) \<and>
   (\<not> use_test_spec \<and> location = ''us-central1'' \<longrightarrow>
      resolve_machine_spec w location use_test_spec =
        Inr \<lparr>machine_type = ''a2-ultragpu-8g'', accelerator_type = ''NVIDIA_A100_80GB'',
             accelerator_count = 8\<rparr>) \<and>
   (\<not> use_test_spec \<and> location \<noteq> ''europe-west4'' \<and> location \<noteq> ''us-central1'' \<longrightarrow>
      (\<exists>regions. resolve_machine_spec w location use_test_spec =
         Inl (UnsupportedLocationError location regions)))"
  by (simp add: resolve_machine_spec_def tpu_regions_def gpu_regions_def)

theorem resolve_machine_spec_cases_witness:
  "resolve_machine_spec world_a ''mars'' True =
     Inr \<lparr>machine_type = ''a2-highgpu-1g'', accelerator_type = ''NVIDIA_TESLA_A100'',
          accelerator_count = 1\<rparr> \<and>
   resolve_machine_spec world_a ''europe-west4'' False =
     Inr \<lparr>machine_type = ''cloud-tpu'', accelerator_type = ''TPU_V3'',
          accelerator_count = 64\<rparr> \<and>
   resolve_machine_spec world_a ''us-central1'' False =
     Inr \<lparr>machine_type = ''a2-ultragpu-8g'', accelerator_type = ''NVIDIA_A100_80GB'',
          accelerator_count = 8\<rparr> \<and>
   (\<exists>regions. resolve_machine_spec world_a ''mars'' False =
      Inl (UnsupportedLocationError ''mars'' regions))"
  using resolve_machine_spec_cases [where use_test_spec = True and w = world_a
          and location = "''mars''"]
    resolve_machine_spec_cases [where use_test_spec = False and w = world_a
          and location = "''europe-west4''"]
    resolve_machine_spec_cases [where use_test_spec = False and w = world_a
          and location = "''us-central1''"]
    resolve_machine_spec_cases [where use_test_spec = False and w = world_a
          and location = "''mars''"]
  by simp

section \<open>Machine-type tiers\<close>

lemmas bulk_names =
  tpu_v2_def tpu_v3_def nvidia_a100_40g_def nvidia_a100_80g_def cloud_tpu_def
  ultra_gpu_1g_def ultra_gpu_2g_def ultra_gpu_4g_def ultra_gpu_8g_def
  high_gpu_1g_def high_gpu_2g_def high_gpu_4g_def high_gpu_8g_def mega_gpu_16g_def
  palm_tiny_def gecko_def otter_def bison_def elephant_def
  t5_small_def t5_large_def t5_xl_def t5_xxl_def

lemma sort_valid_accelerator_types:
  "sort valid_accelerator_types =
     [''NVIDIA_A100_80GB'', ''NVIDIA_TESLA_A100'', ''TPU_V2'', ''TPU_V3'']"
  by code_simp

lemma spec_for_Inr:
  "spec_for t c = Inr ms \<Longrightarrow>
     get_machine_type (accelerator_type ms) (accelerator_count ms) = Inr (machine_type ms)"
  by (auto simp: spec_for_def machine_spec_def split: sum.splits)

lemma bulk_Inr_spec_for:
  "get_default_bulk_inference_machine_specs lmr g t c = Inr ms \<Longrightarrow>
     \<exists>ty n. spec_for ty n = Inr ms"
  unfolding get_default_bulk_inference_machine_specs_def
  by (auto split: if_splits sum.splits option.splits)

lemma gpu_default_exists:
  "lmr \<in> set accepted_reference_models \<Longrightarrow>
     \<exists>d. map_of reference_model_to_model_specs_gpu lmr = Some d \<and>
         spec_for (accelerator_type d) (accelerator_count d) = Inr d"
  by (auto simp: accepted_reference_models_def reference_model_to_model_specs_gpu_def
        machine_spec_def spec_for_def get_machine_type_def tpu_accelerator_types_def bulk_names)

lemma tpu_default_spec_for:
  "spec_for tpu_v3 32 = Inr (machine_spec tpu_v3 32 cloud_tpu)"
  by (simp add: spec_for_def get_machine_type_def tpu_accelerator_types_def)

lemma bulk_no_override:
  assumes "lmr \<in> set accepted_reference_models" "\<not> truthy_str t" "\<not> truthy_int c"
  shows "\<exists>d. (if g then map_of reference_model_to_model_specs_gpu lmr = Some d
               else d = machine_spec tpu_v3 32 cloud_tpu) \<and>
             get_default_bulk_inference_machine_specs lmr g t c = Inr d"
proof (cases g)
  case True
  from gpu_default_exists [OF assms(1)] obtain d where
    "map_of reference_model_to_model_specs_gpu lmr = Some d"
    "spec_for (accelerator_type d) (accelerator_count d) = Inr d" by blast
  with True assms show ?thesis
    by (simp add: get_default_bulk_inference_machine_specs_def)
next
  case False
  with assms tpu_default_spec_for show ?thesis
    by (simp add: get_default_bulk_inference_machine_specs_def machine_spec_def)
qed

lemma bulk_partial_override:
  assumes "lmr \<in> set accepted_reference_models" "truthy_str t \<noteq> truthy_int c"
  shows "get_default_bulk_inference_machine_specs lmr g t c = Inl InvalidOverrideError"
proof -
  from gpu_default_exists [OF assms(1)] obtain d where
    "map_of reference_model_to_model_specs_gpu lmr = Some d" by blast
  with assms show ?thesis
    by (auto simp: get_default_bulk_inference_machine_specs_def)
qed

lemma bulk_full_override:
  assumes "lmr \<in> set accepted_reference_models" "ty \<noteq> []" "n \<noteq> 0"
  shows "get_default_bulk_inference_machine_specs lmr g (Some ty) (Some n) = spec_for ty n"
proof -
  from gpu_default_exists [OF assms(1)] obtain d where
    "map_of reference_model_to_model_specs_gpu lmr = Some d" by blast
  with assms show ?thesis
    by (auto simp: get_default_bulk_inference_machine_specs_def)
qed

lemma bulk_default_selection:
  assumes "lmr \<in> set accepted_reference_models" "\<not> truthy_str ot" "\<not> truthy_int oc"
  shows "\<exists>d. (if g then map_of reference_model_to_model_specs_gpu lmr = Some d
               else d = machine_spec tpu_v3 32 cloud_tpu) \<and>
             get_default_bulk_inference_machine_specs lmr g ot oc =
               spec_for (accelerator_type d) (accelerator_count d) \<and>
             get_default_bulk_inference_machine_specs lmr g ot oc = Inr d"
proof -
  from bulk_no_override [OF assms, of g] obtain d where
    d: "if g then map_of reference_model_to_model_specs_gpu lmr = Some d
        else d = machine_spec tpu_v3 32 cloud_tpu"
    and r: "get_default_bulk_inference_machine_specs lmr g ot oc = Inr d"
    by blast
  have "spec_for (accelerator_type d) (accelerator_count d) = Inr d"
  proof (cases g)
    case True
    with d gpu_default_exists [OF assms(1)] show ?thesis by auto
  next
    case False
    with d tpu_default_spec_for show ?thesis by (simp add: machine_spec_def)
  qed
  with d r show ?thesis by auto
qed

text \<open>
  C1. The tiers of \<open>_get_machine_type\<close>: a count below 1 is the count error; a TPU type
  gives \<open>cloud-tpu\<close>; \<open>NVIDIA_TESLA_A100\<close> goes 1, 2, 3-4, 5-8, 9-16 and fails above 16;
  \<open>NVIDIA_A100_80GB\<close> goes 1, 2, 3-4, 5-8 and fails above 8; any other type fails with the
  sorted list of the four valid types. The bulk inference resolver applies them to the
  selection in effect: for an accepted model, an override pair gives the spec of that type
  and count with its tier, or the error of the tiers; without an override the selection is
  the default (the model's row of the GPU table, or \<open>TPU_V3\<close> with 32), tiered the same
  way, and the result is that default. Every spec the resolver returns carries the tier of
  its type and count.
\<close>

theorem get_machine_type_tiers:
  "(c < 1 \<longrightarrow> get_machine_type t c = Inl InvalidAcceleratorCountError) \<and>
   (1 \<le> c \<and> (t = ''TPU_V2'' \<or> t = ''TPU_V3'') \<longrightarrow> get_machine_type t c = Inr ''cloud-tpu'') \<and>
   (c = 1 \<longrightarrow> get_machine_type ''NVIDIA_TESLA_A100'' c = Inr ''a2-highgpu-1g'') \<and>
   (c = 2 \<longrightarrow> get_machine_type ''NVIDIA_TESLA_A100'' c = Inr ''a2-highgpu-2g'') \<and>
   (3 \<le> c \<and> c \<le> 4 \<longrightarrow> get_machine_type ''NVIDIA_TESLA_A100'' c = Inr ''a2-highgpu-4g'') \<and>
   (5 \<le> c \<and> c \<le> 8 \<longrightarrow> get_machine_type ''NVIDIA_TESLA_A100'' c = Inr ''a2-highgpu-8g'') \<and>
   (9 \<le> c \<and> c \<le> 16 \<longrightarrow> get_machine_type ''NVIDIA_TESLA_A100'' c = Inr ''a2-megagpu-16g'') \<and>
   (16 < c \<longrightarrow> get_machine_type ''NVIDIA_TESLA_A100'' c =
      Inl (TooManyAcceleratorsError ''NVIDIA_TESLA_A100'' 16)) \<and>
   (c = 1 \<longrightarrow> get_machine_type ''NVIDIA_A100_80GB'' c = Inr ''a2-ultragpu-1g'') \<and>
   (c = 2 \<longrightarrow> get_machine_type ''NVIDIA_A100_80GB'' c = Inr ''a2-ultragpu-2g'') \<and>
   (3 \<le> c \<and> c \<le> 4 \<longrightarrow> get_machine_type ''NVIDIA_A100_80GB'' c = Inr ''a2-ultragpu-4g'') \<and>
   (5 \<le> c \<and> c \<le> 8 \<longrightarrow> get_machine_type ''NVIDIA_A100_80GB'' c = Inr ''a2-ultragpu-8g'') \<and>
   (8 < c \<longrightarrow> get_machine_type ''NVIDIA_A100_80GB'' c =
      Inl (TooManyAcceleratorsError ''NVIDIA_A100_80GB'' 8)) \<and>
   (1 \<le> c \<and> t \<notin> {''TPU_V2'', ''TPU_V3'', ''NVIDIA_TESLA_A100'', ''NVIDIA_A100_80GB''} \<longrightarrow>
      get_machine_type t c =
        Inl (UnknownAcceleratorTypeError
               [''NVIDIA_A100_80GB'', ''NVIDIA_TESLA_A100'', ''TPU_V2'', ''TPU_V3''])) \<and>
   (get_default_bulk_inference_machine_specs lmr g ot oc = Inr ms \<longrightarrow>
      get_machine_type (accelerator_type ms) (accelerator_count ms) = Inr (machine_type ms)) \<and>
   (lmr \<in> set accepted_reference_models \<and> ty \<noteq> [] \<and> n \<noteq> 0 \<longrightarrow>
      get_default_bulk_inference_machine_specs lmr g (Some ty) (Some n) =
        (case get_machine_type ty n of
           Inl e \<Rightarrow> Inl e
         | Inr m \<Rightarrow> Inr \<lparr>machine_type = m, accelerator_type = ty,
                          accelerator_count = n\<rparr>)) \<and>
   (lmr \<in> set accepted_reference_models \<and> \<not> truthy_str ot \<and> \<not> truthy_int oc \<longrightarrow>
      (\<exists>d. (if g then map_of reference_model_to_model_specs_gpu lmr = Some d
             else d = \<lparr>machine_type = ''cloud-tpu'', accelerator_type = ''TPU_V3'',
                       accelerator_count = 32\<rparr>) \<and>
            get_default_bulk_inference_machine_specs lmr g ot oc =
              (case get_machine_type (accelerator_type d) (accelerator_count d) of
                 Inl e \<Rightarrow> Inl e
               | Inr m \<Rightarrow> Inr \<lparr>machine_type = m, accelerator_type = accelerator_type d,
                                accelerator_count = accelerator_count d\<rparr>) \<and>
            get_default_bulk_inference_machine_specs lmr g ot oc = Inr d))"
proof -
  have tiers: "get_machine_type t c =
      (if c < 1 then Inl InvalidAcceleratorCountError
       else if t = ''TPU_V2'' \<or> t = ''TPU_V3'' then Inr ''cloud-tpu''
       else if t = ''NVIDIA_TESLA_A100'' then
         (if c = 1 then Inr ''a2-highgpu-1g'' else if c = 2 then Inr ''a2-highgpu-2g''
          else if c \<le> 4 then Inr ''a2-highgpu-4g'' else if c \<le> 8 then Inr ''a2-highgpu-8g''
          else if c \<le> 16 then Inr ''a2-megagpu-16g''
          else Inl (TooManyAcceleratorsError t 16))
       else if t = ''NVIDIA_A100_80GB'' then
         (if c = 1 then Inr ''a2-ultragpu-1g'' else if c = 2 then Inr ''a2-ultragpu-2g''
          else if c \<le> 4 then Inr ''a2-ultragpu-4g'' else if c \<le> 8 then Inr ''a2-ultragpu-8g''
          else Inl (TooManyAcceleratorsError t 8))
       else Inl (UnknownAcceleratorTypeError
               [''NVIDIA_A100_80GB'', ''NVIDIA_TESLA_A100'', ''TPU_V2'', ''TPU_V3'']))" for t c
    by (simp add: get_machine_type_def sort_valid_accelerator_types tpu_accelerator_types_def
          bulk_names)
  have ladder: "(c < 1 \<longrightarrow> get_machine_type t c = Inl InvalidAcceleratorCountError) \<and>
   (1 \<le> c \<and> (t = ''TPU_V2'' \<or> t = ''TPU_V3'') \<longrightarrow> get_machine_type t c = Inr ''cloud-tpu'') \<and>
   (c = 1 \<longrightarrow> get_machine_type ''NVIDIA_TESLA_A100'' c = Inr ''a2-highgpu-1g'') \<and>
   (c = 2 \<longrightarrow> get_machine_type ''NVIDIA_TESLA_A100'' c = Inr ''a2-highgpu-2g'') \<and>
   (3 \<le> c \<and> c \<le> 4 \<longrightarrow> get_machine_type ''NVIDIA_TESLA_A100'' c = Inr ''a2-highgpu-4g'') \<and>
   (5 \<le> c \<and> c \<le> 8 \<longrightarrow> get_machine_type ''NVIDIA_TESLA_A100'' c = Inr ''a2-highgpu-8g'') \<and>
   (9 \<le> c \<and> c \<le> 16 \<longrightarrow> get_machine_type ''NVIDIA_TESLA_A100'' c = Inr ''a2-megagpu-16g'') \<and>
   (16 < c \<longrightarrow> get_machine_type ''NVIDIA_TESLA_A100'' c =
      Inl (TooManyAcceleratorsError ''NVIDIA_TESLA_A100'' 16)) \<and>
   (c = 1 \<longrightarrow> get_machine_type ''NVIDIA_A100_80GB'' c = Inr ''a2-ultragpu-1g'') \<and>
   (c = 2 \<longrightarrow> get_machine_type ''NVIDIA_A100_80GB'' c = Inr ''a2-ultragpu-2g'') \<and>
   (3 \<le> c \<and> c \<le> 4 \<longrightarrow> get_machine_type ''NVIDIA_A100_80GB'' c = Inr ''a2-ultragpu-4g'') \<and>
   (5 \<le> c \<and> c \<le> 8 \<longrightarrow> get_machine_type ''NVIDIA_A100_80GB'' c = Inr ''a2-ultragpu-8g'') \<and>
   (8 < c \<longrightarrow> get_machine_type ''NVIDIA_A100_80GB'' c =
      Inl (TooManyAcceleratorsError ''NVIDIA_A100_80GB'' 8)) \<and>
   (1 \<le> c \<and> t \<notin> {''TPU_V2'', ''TPU_V3'', ''NVIDIA_TESLA_A100'', ''NVIDIA_A100_80GB''} \<longrightarrow>
      get_machine_type t c =
        Inl (UnknownAcceleratorTypeError
               [''NVIDIA_A100_80GB'', ''NVIDIA_TESLA_A100'', ''TPU_V2'', ''TPU_V3'']))"
    by (simp add: tiers)
  have bulk: "get_default_bulk_inference_machine_specs lmr g ot oc = Inr ms \<longrightarrow>
      get_machine_type (accelerator_type ms) (accelerator_count ms) = Inr (machine_type ms)"
    using bulk_Inr_spec_for spec_for_Inr by blast
  have over: "lmr \<in> set accepted_reference_models \<and> ty \<noteq> [] \<and> n \<noteq> 0 \<longrightarrow>
      get_default_bulk_inference_machine_specs lmr g (Some ty) (Some n) =
        (case get_machine_type ty n of
           Inl e \<Rightarrow> Inl e
         | Inr m \<Rightarrow> Inr \<lparr>machine_type = m, accelerator_type = ty,
                          accelerator_count = n\<rparr>)"
    using bulk_full_override [of lmr ty n g]
    by (auto simp: spec_for_def machine_spec_def split: sum.splits)
  have dflt: "lmr \<in> set accepted_reference_models \<and> \<not> truthy_str ot \<and> \<not> truthy_int oc \<longrightarrow>
      (\<exists>d. (if g then map_of reference_model_to_model_specs_gpu lmr = Some d
             else d = \<lparr>machine_type = ''cloud-tpu'', accelerator_type = ''TPU_V3'',
                       accelerator_count = 32\<rparr>) \<and>
            get_default_bulk_inference_machine_specs lmr g ot oc =
              (case get_machine_type (accelerator_type d) (accelerator_count d) of
                 Inl e \<Rightarrow> Inl e
               | Inr m \<Rightarrow> Inr \<lparr>machine_type = m, accelerator_type = accelerator_type d,
                                accelerator_count = accelerator_count d\<rparr>) \<and>
            get_default_bulk_inference_machine_specs lmr g ot oc = Inr d)"
  proof
    assume a: "lmr \<in> set accepted_reference_models \<and> \<not> truthy_str ot \<and> \<not> truthy_int oc"
    then obtain d where
      d: "if g then map_of reference_model_to_model_specs_gpu lmr = Some d
          else d = machine_spec tpu_v3 32 cloud_tpu"
      and e: "get_default_bulk_inference_machine_specs lmr g ot oc =
               spec_for (accelerator_type d) (accelerator_count d)"
      and r: "get_default_bulk_inference_machine_specs lmr g ot oc = Inr d"
      using bulk_default_selection [of lmr ot oc g] by blast
    from d have d': "if g then map_of reference_model_to_model_specs_gpu lmr = Some d
             else d = \<lparr>machine_type = ''cloud-tpu'', accelerator_type = ''TPU_V3'',
                       accelerator_count = 32\<rparr>"
      by (simp add: machine_spec_def tpu_v3_def cloud_tpu_def)
    from e have e': "get_default_bulk_inference_machine_specs lmr g ot oc =
              (case get_machine_type (accelerator_type d) (accelerator_count d) of
                 Inl e \<Rightarrow> Inl e
               | Inr m \<Rightarrow> Inr \<lparr>machine_type = m, accelerator_type = accelerator_type d,
                                accelerator_count = accelerator_count d\<rparr>)"
      unfolding spec_for_def machine_spec_def .
    from d' e' r show "\<exists>d. (if g then map_of reference_model_to_model_specs_gpu lmr = Some d
             else d = \<lparr>machine_type = ''cloud-tpu'', accelerator_type = ''TPU_V3'',
                       accelerator_count = 32\<rparr>) \<and>
            get_default_bulk_inference_machine_specs lmr g ot oc =
              (case get_machine_type (accelerator_type d) (accelerator_count d) of
                 Inl e \<Rightarrow> Inl e
               | Inr m \<Rightarrow> Inr \<lparr>machine_type = m, accelerator_type = accelerator_type d,
                                accelerator_count = accelerator_count d\<rparr>) \<and>
            get_default_bulk_inference_machine_specs lmr g ot oc = Inr d"
      by (intro exI [of _ d] conjI)
  qed
  from ladder bulk over dflt show ?thesis
    by (elim conjE, intro conjI) assumption+
qed

theorem get_machine_type_tiers_witness:
  "get_machine_type ''NVIDIA_V100'' 0 = Inl InvalidAcceleratorCountError \<and>
   get_machine_type ''TPU_V3'' 32 = Inr ''cloud-tpu'' \<and>
   get_machine_type ''NVIDIA_TESLA_A100'' 1 = Inr ''a2-highgpu-1g'' \<and>
   get_machine_type ''NVIDIA_TESLA_A100'' 2 = Inr ''a2-highgpu-2g'' \<and>
   get_machine_type ''NVIDIA_TESLA_A100'' 4 = Inr ''a2-highgpu-4g'' \<and>
   get_machine_type ''NVIDIA_TESLA_A100'' 5 = Inr ''a2-highgpu-8g'' \<and>
   get_machine_type ''NVIDIA_TESLA_A100'' 16 = Inr ''a2-megagpu-16g'' \<and>
   get_machine_type ''NVIDIA_TESLA_A100'' 17 =
     Inl (TooManyAcceleratorsError ''NVIDIA_TESLA_A100'' 16) \<and>
   get_machine_type ''NVIDIA_A100_80GB'' 1 = Inr ''a2-ultragpu-1g'' \<and>
   get_machine_type ''NVIDIA_A100_80GB'' 2 = Inr ''a2-ultragpu-2g'' \<and>
   get_machine_type ''NVIDIA_A100_80GB'' 3 = Inr ''a2-ultragpu-4g'' \<and>
   get_machine_type ''NVIDIA_A100_80GB'' 8 = Inr ''a2-ultragpu-8g'' \<and>
   get_machine_type ''NVIDIA_A100_80GB'' 9 =
     Inl (TooManyAcceleratorsError ''NVIDIA_A100_80GB'' 8) \<and>
   get_machine_type ''NVIDIA_V100'' 1 =
     Inl (UnknownAcceleratorTypeError
            [''NVIDIA_A100_80GB'', ''NVIDIA_TESLA_A100'', ''TPU_V2'', ''TPU_V3'']) \<and>
   get_machine_type ''NVIDIA_TESLA_A100'' 8 = Inr ''a2-highgpu-8g'' \<and>
   get_default_bulk_inference_machine_specs ''BISON'' False
       (Some ''NVIDIA_TESLA_A100'') (Some 17) =
     Inl (TooManyAcceleratorsError ''NVIDIA_TESLA_A100'' 16) \<and>
   get_default_bulk_inference_machine_specs ''BISON'' False
       (Some ''NVIDIA_TESLA_A100'') (Some 5) =
     Inr \<lparr>machine_type = ''a2-highgpu-8g'', accelerator_type = ''NVIDIA_TESLA_A100'',
          accelerator_count = 5\<rparr> \<and>
   get_default_bulk_inference_machine_specs ''BISON'' True
       (Some ''NVIDIA_A100_80GB'') (Some 9) =
     Inl (TooManyAcceleratorsError ''NVIDIA_A100_80GB'' 8) \<and>
   get_default_bulk_inference_machine_specs ''BISON'' True (Some ''TPU_V3'') (Some (- 1)) =
     Inl InvalidAcceleratorCountError \<and>
   get_default_bulk_inference_machine_specs ''BISON'' True (Some ''NVIDIA_V100'') (Some 1) =
     Inl (UnknownAcceleratorTypeError
            [''NVIDIA_A100_80GB'', ''NVIDIA_TESLA_A100'', ''TPU_V2'', ''TPU_V3'']) \<and>
   get_default_bulk_inference_machine_specs ''BISON'' True None None =
     Inr \<lparr>machine_type = ''a2-highgpu-8g'', accelerator_type = ''NVIDIA_TESLA_A100'',
          accelerator_count = 8\<rparr> \<and>
   get_default_bulk_inference_machine_specs ''BISON'' False None None =
     Inr \<lparr>machine_type = ''cloud-tpu'', accelerator_type = ''TPU_V3'',
          accelerator_count = 32\<rparr>"
proof -
  have acc: "''BISON'' \<in> set accepted_reference_models" by code_simp
  have tab: "map_of reference_model_to_model_specs_gpu ''BISON'' =
      Some \<lparr>machine_type = ''a2-highgpu-8g'', accelerator_type = ''NVIDIA_TESLA_A100'',
            accelerator_count = 8\<rparr>"
    by code_simp
  have bison: "get_default_bulk_inference_machine_specs ''BISON'' True None None =
      Inr \<lparr>machine_type = ''a2-highgpu-8g'', accelerator_type = ''NVIDIA_TESLA_A100'',
           accelerator_count = 8\<rparr>"
    using get_machine_type_tiers [where lmr = "''BISON''" and g = True and ot = None
        and oc = None and c = 8 and t = "''TPU_V3''"] acc tab
    by simp
  have tpu: "get_default_bulk_inference_machine_specs ''BISON'' False None None =
      Inr \<lparr>machine_type = ''cloud-tpu'', accelerator_type = ''TPU_V3'',
           accelerator_count = 32\<rparr>"
    using get_machine_type_tiers [where lmr = "''BISON''" and g = False and ot = None
        and oc = None and c = 32 and t = "''TPU_V3''"] acc
    by simp
  have o17: "get_default_bulk_inference_machine_specs ''BISON'' False
       (Some ''NVIDIA_TESLA_A100'') (Some 17) =
     Inl (TooManyAcceleratorsError ''NVIDIA_TESLA_A100'' 16)"
    using get_machine_type_tiers [where lmr = "''BISON''" and g = False
        and ty = "''NVIDIA_TESLA_A100''" and n = 17 and c = 17] acc
    by simp
  have o5: "get_default_bulk_inference_machine_specs ''BISON'' False
       (Some ''NVIDIA_TESLA_A100'') (Some 5) =
     Inr \<lparr>machine_type = ''a2-highgpu-8g'', accelerator_type = ''NVIDIA_TESLA_A100'',
          accelerator_count = 5\<rparr>"
    using get_machine_type_tiers [where lmr = "''BISON''" and g = False
        and ty = "''NVIDIA_TESLA_A100''" and n = 5 and c = 5] acc
    by simp
  have o9: "get_default_bulk_inference_machine_specs ''BISON'' True
       (Some ''NVIDIA_A100_80GB'') (Some 9) =
     Inl (TooManyAcceleratorsError ''NVIDIA_A100_80GB'' 8)"
    using get_machine_type_tiers [where lmr = "''BISON''" and g = True
        and ty = "''NVIDIA_A100_80GB''" and n = 9 and c = 9] acc
    by simp
  have om: "get_default_bulk_inference_machine_specs ''BISON'' True (Some ''TPU_V3'')
       (Some (- 1)) = Inl InvalidAcceleratorCountError"
    using get_machine_type_tiers [where lmr = "''BISON''" and g = True
        and ty = "''TPU_V3''" and n = "- 1" and c = "- 1" and t = "''TPU_V3''"] acc
    by simp
  have ou: "get_default_bulk_inference_machine_specs ''BISON'' True (Some ''NVIDIA_V100'')
       (Some 1) =
     Inl (UnknownAcceleratorTypeError
            [''NVIDIA_A100_80GB'', ''NVIDIA_TESLA_A100'', ''TPU_V2'', ''TPU_V3''])"
    using get_machine_type_tiers [where lmr = "''BISON''" and g = True
        and ty = "''NVIDIA_V100''" and n = 1 and c = 1 and t = "''NVIDIA_V100''"] acc
    by simp
  have helper: "get_machine_type ''NVIDIA_V100'' 0 = Inl InvalidAcceleratorCountError \<and>
   get_machine_type ''TPU_V3'' 32 = Inr ''cloud-tpu'' \<and>
   get_machine_type ''NVIDIA_TESLA_A100'' 1 = Inr ''a2-highgpu-1g'' \<and>
   get_machine_type ''NVIDIA_TESLA_A100'' 2 = Inr ''a2-highgpu-2g'' \<and>
   get_machine_type ''NVIDIA_TESLA_A100'' 4 = Inr ''a2-highgpu-4g'' \<and>
   get_machine_type ''NVIDIA_TESLA_A100'' 5 = Inr ''a2-highgpu-8g'' \<and>
   get_machine_type ''NVIDIA_TESLA_A100'' 16 = Inr ''a2-megagpu-16g'' \<and>
   get_machine_type ''NVIDIA_TESLA_A100'' 17 =
     Inl (TooManyAcceleratorsError ''NVIDIA_TESLA_A100'' 16) \<and>
   get_machine_type ''NVIDIA_A100_80GB'' 1 = Inr ''a2-ultragpu-1g'' \<and>
   get_machine_type ''NVIDIA_A100_80GB'' 2 = Inr ''a2-ultragpu-2g'' \<and>
   get_machine_type ''NVIDIA_A100_80GB'' 3 = Inr ''a2-ultragpu-4g'' \<and>
   get_machine_type ''NVIDIA_A100_80GB'' 8 = Inr ''a2-ultragpu-8g'' \<and>
   get_machine_type ''NVIDIA_A100_80GB'' 9 =
     Inl (TooManyAcceleratorsError ''NVIDIA_A100_80GB'' 8) \<and>
   get_machine_type ''NVIDIA_V100'' 1 =
     Inl (UnknownAcceleratorTypeError
            [''NVIDIA_A100_80GB'', ''NVIDIA_TESLA_A100'', ''TPU_V2'', ''TPU_V3'']) \<and>
   get_machine_type ''NVIDIA_TESLA_A100'' 8 = Inr ''a2-highgpu-8g''"
    using get_machine_type_tiers [where c = 0 and t = "''NVIDIA_V100''"]
      get_machine_type_tiers [where c = 32 and t = "''TPU_V3''"]
      get_machine_type_tiers [where c = 1 and t = "''NVIDIA_V100''"]
      get_machine_type_tiers [where c = 2]
      get_machine_type_tiers [where c = 3]
      get_machine_type_tiers [where c = 4]
      get_machine_type_tiers [where c = 5]
      get_machine_type_tiers [where c = 8]
      get_machine_type_tiers [where c = 9]
      get_machine_type_tiers [where c = 16]
      get_machine_type_tiers [where c = 17]
      get_machine_type_tiers [where lmr = "''BISON''" and g = True and ot = None
        and oc = None and c = 8
        and ms = "\<lparr>machine_type = ''a2-highgpu-8g'',
                   accelerator_type = ''NVIDIA_TESLA_A100'', accelerator_count = 8\<rparr>"]
    by (simp add: bison)
  from helper o17 o5 o9 om ou bison tpu show ?thesis
    by (elim conjE, intro conjI) assumption+
qed

section \<open>Overrides of the bulk inference resolver\<close>

text \<open>
  C3, as stated, fails: a count override of 0 passed alone is not an error, the defaults
  come back; and a type passed together with the count 0 does not replace the defaults,
  it is the override error.
\<close>

theorem override_truthy_counterexample:
  "''BISON'' \<in> set accepted_reference_models \<and>
   get_default_bulk_inference_machine_specs ''BISON'' False None (Some 0) =
     Inr \<lparr>machine_type = ''cloud-tpu'', accelerator_type = ''TPU_V3'',
          accelerator_count = 32\<rparr> \<and>
   get_default_bulk_inference_machine_specs ''BISON'' False (Some ''NVIDIA_A100_80GB'') (Some 0) =
     Inl InvalidOverrideError"
  by code_simp

text \<open>
  C3, amended. An override is present when it is truthy (a non-empty type, a count other
  than 0). For an accepted model, exactly one override present is the override error;
  both present replace the default type and count, whatever the model and the choice of
  defaults, and the pair then goes through the tiers, which may fail.
\<close>

theorem override_all_or_nothing:
  "lmr \<in> set accepted_reference_models \<longrightarrow>
     (truthy_str t \<noteq> truthy_int c \<longrightarrow>
        get_default_bulk_inference_machine_specs lmr g t c = Inl InvalidOverrideError) \<and>
     (ty \<noteq> [] \<and> n \<noteq> 0 \<longrightarrow>
        get_default_bulk_inference_machine_specs lmr g (Some ty) (Some n) =
          (case get_machine_type ty n of
             Inl e \<Rightarrow> Inl e
           | Inr m \<Rightarrow> Inr \<lparr>machine_type = m, accelerator_type = ty,
                            accelerator_count = n\<rparr>))"
  using bulk_partial_override [of lmr t c g] bulk_full_override [of lmr ty n g]
  by (auto simp: spec_for_def machine_spec_def split: sum.splits)

theorem override_all_or_nothing_witness:
  "get_default_bulk_inference_machine_specs ''T5_XXL'' True (Some ''TPU_V3'') None =
     Inl InvalidOverrideError \<and>
   get_default_bulk_inference_machine_specs ''T5_XXL'' True None (Some 4) =
     Inl InvalidOverrideError \<and>
   get_default_bulk_inference_machine_specs ''T5_XXL'' True (Some ''NVIDIA_A100_80GB'') (Some 4) =
     Inr \<lparr>machine_type = ''a2-ultragpu-4g'', accelerator_type = ''NVIDIA_A100_80GB'',
          accelerator_count = 4\<rparr>"
proof -
  have acc: "''T5_XXL'' \<in> set accepted_reference_models" by code_simp
  have mt: "get_machine_type ''NVIDIA_A100_80GB'' 4 = Inr ''a2-ultragpu-4g''" by code_simp
  show ?thesis
    using override_all_or_nothing [where lmr = "''T5_XXL''" and g = True
            and t = "Some ''TPU_V3''" and c = None and ty = "''NVIDIA_A100_80GB''" and n = 4]
      override_all_or_nothing [where lmr = "''T5_XXL''" and g = True
            and t = None and c = "Some 4" and ty = "''NVIDIA_A100_80GB''" and n = 4]
    by (simp add: acc mt)
qed

text \<open>
  C10. For an accepted model: a count override of 0 alone, or with an empty type, gives
  the defaults without error, as no override at all does; an empty type override behaves
  as an absent one for every count; and a non-empty type with the count 0 is the override
  error, whose message is that both must be set, not the count error.
\<close>

theorem override_presence_is_truthiness:
  "lmr \<in> set accepted_reference_models \<longrightarrow>
     (\<exists>d. (if g then map_of reference_model_to_model_specs_gpu lmr = Some d
            else d = \<lparr>machine_type = ''cloud-tpu'', accelerator_type = ''TPU_V3'',
                      accelerator_count = 32\<rparr>) \<and>
           get_default_bulk_inference_machine_specs lmr g None (Some 0) = Inr d \<and>
           get_default_bulk_inference_machine_specs lmr g None None = Inr d \<and>
           get_default_bulk_inference_machine_specs lmr g (Some []) None = Inr d \<and>
           get_default_bulk_inference_machine_specs lmr g (Some []) (Some 0) = Inr d) \<and>
     get_default_bulk_inference_machine_specs lmr g (Some []) c =
       get_default_bulk_inference_machine_specs lmr g None c \<and>
     (ty \<noteq> [] \<longrightarrow>
        get_default_bulk_inference_machine_specs lmr g (Some ty) (Some 0) =
          Inl InvalidOverrideError \<and>
        error_message InvalidOverrideError = ''Accelerator type and count must both be set.'')"
proof (intro impI conjI)
  assume acc: "lmr \<in> set accepted_reference_models"
  from bulk_no_override [OF acc, of None None g] obtain d where
    d: "if g then map_of reference_model_to_model_specs_gpu lmr = Some d
        else d = machine_spec tpu_v3 32 cloud_tpu"
    and r: "get_default_bulk_inference_machine_specs lmr g None None = Inr d"
    by auto
  have same: "get_default_bulk_inference_machine_specs lmr g t c =
      get_default_bulk_inference_machine_specs lmr g None None"
    if "\<not> truthy_str t" "\<not> truthy_int c" for t c
    using that
    by (auto simp: get_default_bulk_inference_machine_specs_def split: sum.splits option.splits)
  show "\<exists>d. (if g then map_of reference_model_to_model_specs_gpu lmr = Some d
            else d = \<lparr>machine_type = ''cloud-tpu'', accelerator_type = ''TPU_V3'',
                      accelerator_count = 32\<rparr>) \<and>
           get_default_bulk_inference_machine_specs lmr g None (Some 0) = Inr d \<and>
           get_default_bulk_inference_machine_specs lmr g None None = Inr d \<and>
           get_default_bulk_inference_machine_specs lmr g (Some []) None = Inr d \<and>
           get_default_bulk_inference_machine_specs lmr g (Some []) (Some 0) = Inr d"
    using d r same [of None "Some 0"] same [of "Some []" None] same [of "Some []" "Some 0"]
    by (intro exI [of _ d]) (simp add: machine_spec_def tpu_v3_def cloud_tpu_def)
  show "get_default_bulk_inference_machine_specs lmr g (Some []) c =
       get_default_bulk_inference_machine_specs lmr g None c"
    by (auto simp: get_default_bulk_inference_machine_specs_def split: sum.splits option.splits)
  show "get_default_bulk_inference_machine_specs lmr g (Some ty) (Some 0) =
          Inl InvalidOverrideError" if "ty \<noteq> []"
    using bulk_partial_override [OF acc, of "Some ty" "Some 0" g] that by simp
  show "error_message InvalidOverrideError = ''Accelerator type and count must both be set.''"
    by simp
qed

theorem override_presence_is_truthiness_witness:
  "get_default_bulk_inference_machine_specs ''OTTER'' True None (Some 0) =
     Inr \<lparr>machine_type = ''a2-highgpu-2g'', accelerator_type = ''NVIDIA_TESLA_A100'',
          accelerator_count = 2\<rparr> \<and>
   get_default_bulk_inference_machine_specs ''OTTER'' True (Some []) (Some 0) =
     Inr \<lparr>machine_type = ''a2-highgpu-2g'', accelerator_type = ''NVIDIA_TESLA_A100'',
          accelerator_count = 2\<rparr> \<and>
   get_default_bulk_inference_machine_specs ''OTTER'' True (Some ''TPU_V3'') (Some 0) =
     Inl InvalidOverrideError"
proof -
  have acc: "''OTTER'' \<in> set accepted_reference_models" by code_simp
  have tab: "map_of reference_model_to_model_specs_gpu ''OTTER'' =
      Some \<lparr>machine_type = ''a2-highgpu-2g'', accelerator_type = ''NVIDIA_TESLA_A100'',
          accelerator_count = 2\<rparr>" by code_simp
  show ?thesis
    using override_presence_is_truthiness [where lmr = "''OTTER''" and g = True
            and ty = "''TPU_V3''" and c = None]
    by (auto simp: acc tab)
qed

section \<open>Image URI\<close>

text \<open>
  C4. The suffix is empty for a CPU-only image, else \<open>_tpu\<close> for \<open>TPU_V3\<close>, else
  \<open>_gpu_test\<close> for \<open>NVIDIA_A100_80GB\<close> with count 8, else \<open>_gpu\<close>; \<open>_backup\<close> follows it
  exactly when the image is backup-eligible and the suffix is not \<open>_gpu_test\<close>; the URI is
  the concatenation of the parts, whatever the other arguments are.
\<close>

theorem resolve_image_uri_suffix:
  "(let suffix =
          (if image_name \<in> {''text_importer'', ''text_comparison_importer''} then []
           else if acc_type = ''TPU_V3'' then ''_tpu''
           else if acc_type = ''NVIDIA_A100_80GB'' \<and> acc_count = 8 then ''_gpu_test''
           else ''_gpu'')
    in resolve_image_uri image_name project location artifact_registry image_name_prefix tag
         acc_type acc_count =
       location @ ''-docker.pkg.dev/'' @ project @ ''/'' @ artifact_registry @ ''/'' @
       image_name_prefix @ image_name @ suffix @
       (if image_name \<in> {''sft'', ''reward_model'', ''reinforcer'', ''infer'',
                          ''text_importer'', ''text_comparison_importer''} \<and>
           suffix \<noteq> ''_gpu_test''
        then ''_backup'' else []) @
       '':'' @ tag)"
  by (simp add: resolve_image_uri_def Let_def cpu_only_images_def backup_images_def)

theorem resolve_image_uri_suffix_witness:
  "resolve_image_uri ''sft'' ''p'' ''us'' ''r'' ''x_'' ''v1'' ''TPU_V3'' 32 =
     ''us-docker.pkg.dev/p/r/x_sft_tpu_backup:v1'' \<and>
   resolve_image_uri ''sft'' ''p'' ''us'' ''r'' ''x_'' ''v1'' ''NVIDIA_A100_80GB'' 8 =
     ''us-docker.pkg.dev/p/r/x_sft_gpu_test:v1'' \<and>
   resolve_image_uri ''text_importer'' ''p'' ''us'' ''r'' ''x_'' ''v1'' ''TPU_V3'' 32 =
     ''us-docker.pkg.dev/p/r/x_text_importer_backup:v1'' \<and>
   resolve_image_uri ''bulk_inferrer'' ''p'' ''us'' ''r'' ''x_'' ''v1'' ''NVIDIA_A100_80GB'' 4 =
     ''us-docker.pkg.dev/p/r/x_bulk_inferrer_gpu:v1''"
  using resolve_image_uri_suffix [where image_name = "''sft''" and project = "''p''"
          and location = "''us''" and artifact_registry = "''r''"
          and image_name_prefix = "''x_''" and tag = "''v1''" and acc_type = "''TPU_V3''"
          and acc_count = 32]
    resolve_image_uri_suffix [where image_name = "''sft''" and project = "''p''"
          and location = "''us''" and artifact_registry = "''r''"
          and image_name_prefix = "''x_''" and tag = "''v1''"
          and acc_type = "''NVIDIA_A100_80GB''" and acc_count = 8]
    resolve_image_uri_suffix [where image_name = "''text_importer''" and project = "''p''"
          and location = "''us''" and artifact_registry = "''r''"
          and image_name_prefix = "''x_''" and tag = "''v1''" and acc_type = "''TPU_V3''"
          and acc_count = 32]
    resolve_image_uri_suffix [where image_name = "''bulk_inferrer''" and project = "''p''"
          and location = "''us''" and artifact_registry = "''r''"
          and image_name_prefix = "''x_''" and tag = "''v1''"
          and acc_type = "''NVIDIA_A100_80GB''" and acc_count = 4]
  by simp

section \<open>The message of the location error\<close>

text \<open>
  C5. The message prints the set \<open>tpu_regions | gpu_regions\<close> itself, not a sorted list of
  it. In a process that iterates the set with \<open>us-central1\<close> first the regions of the
  message are not in sorted order; in another process they are.
\<close>

theorem location_error_set_order:
  "resolve_machine_spec world_b ''mars'' False =
     Inl (UnsupportedLocationError ''mars'' [''us-central1'', ''europe-west4'']) \<and>
   error_message (UnsupportedLocationError ''mars'' [''us-central1'', ''europe-west4'']) =
     ''Unsupported accelerator location mars. Must be one of {'us-central1', 'europe-west4'}.'' \<and>
   \<not> sorted [''us-central1'', ''europe-west4''] \<and>
   resolve_machine_spec world_a ''mars'' False =
     Inl (UnsupportedLocationError ''mars'' [''europe-west4'', ''us-central1''])"
  by code_simp

section \<open>Reference model registry\<close>

lemma distinct_reference_model_keys: "distinct (map fst reference_models)"
  by code_simp

lemma sort_supported_models:
  "sort supported_models =
     [''chat-bison@001'', ''llama-2-13b'', ''llama-2-13b-chat'', ''llama-2-7b'',
      ''llama-2-7b-chat'', ''t5-large'', ''t5-small'', ''t5-xl'', ''t5-xxl'',
      ''text-bison@001'']"
  by code_simp

lemma set_supported_models:
  "set supported_models = {k. \<exists>m. (k, m) \<in> set reference_models \<and> is_supported m}"
  by (force simp: supported_models_def)

lemma resolve_hit:
  assumes "map_of reference_models (reference_model_key lmr) = Some m"
  shows "resolve_reference_model_metadata lmr rmp =
     Inr \<lparr>out_large_model_reference = large_model_reference m,
          out_reference_model_path = or_str rmp (reference_model_path m),
          out_reward_model_reference = reward_model_reference m,
          out_reward_model_path = reward_model_path m\<rparr>"
  using assms by (simp add: resolve_reference_model_metadata_def)

lemma resolve_miss:
  assumes "map_of reference_models (reference_model_key lmr) = None"
  shows "resolve_reference_model_metadata lmr rmp =
     Inl (UnknownReferenceModelError lmr (sort supported_models))"
  using assms by (simp add: resolve_reference_model_metadata_def)

lemma lower_char_idem: "lower_char (lower_char c) = lower_char c"
  by (auto simp: lower_char_def Let_def)

lemma lower_char_not_underscore: "lower_char c = CHR ''_'' \<longleftrightarrow> c = CHR ''_''"
proof
  assume h: "lower_char c = CHR ''_''"
  show "c = CHR ''_''"
  proof (rule ccontr)
    assume n: "c \<noteq> CHR ''_''"
    with h have up: "lower_char c = char_of (of_char c + 32 :: nat)"
      and rng: "(65 \<le> (of_char c :: nat) \<and> (of_char c :: nat) \<le> 90) \<or>
           (192 \<le> (of_char c :: nat) \<and> (of_char c :: nat) \<le> 222)"
      by (auto simp: lower_char_def Let_def split: if_splits)
    from h up have "(of_char (char_of (of_char c + 32 :: nat)) :: nat) = of_char CHR ''_''"
      by simp
    with rng show False by auto
  qed
next
  assume "c = CHR ''_''" then show "lower_char c = CHR ''_''"
    by (simp add: lower_char_def)
qed

lemma reference_model_key_pointwise:
  "reference_model_key lmr =
     map (\<lambda>c. if c = CHR ''_'' then CHR ''-'' else lower_char c) lmr"
  by (simp add: reference_model_key_def replace_char_def lower_def lower_char_not_underscore)

lemma reference_model_key_idem:
  "reference_model_key (reference_model_key lmr) = reference_model_key lmr"
proof -
  have "(if (if c = CHR ''_'' then CHR ''-'' else lower_char c) = CHR ''_'' then CHR ''-''
         else lower_char (if c = CHR ''_'' then CHR ''-'' else lower_char c)) =
        (if c = CHR ''_'' then CHR ''-'' else lower_char c)" for c
  proof (cases "c = CHR ''_''")
    case True
    then show ?thesis by (simp add: lower_char_def)
  next
    case False
    then show ?thesis by (simp add: lower_char_not_underscore lower_char_idem)
  qed
  then show ?thesis
    by (simp add: reference_model_key_pointwise)
qed

text \<open>
  C6. An entry is returned whenever the normalized key is its key, supported or not; on
  a miss the error lists the sorted keys of the supported entries, and only those;
  \<open>palm-tiny\<close>, \<open>gecko\<close>, \<open>otter\<close>, \<open>bison\<close> and \<open>elephant\<close> are entries that are not
  supported.
\<close>

theorem unsupported_entries_reachable:
  "((k, m) \<in> set reference_models \<and> reference_model_key lmr = k \<longrightarrow>
      resolve_reference_model_metadata lmr rmp =
        Inr \<lparr>out_large_model_reference = large_model_reference m,
             out_reference_model_path = or_str rmp (reference_model_path m),
             out_reward_model_reference = reward_model_reference m,
             out_reward_model_path = reward_model_path m\<rparr>) \<and>
   (reference_model_key lmr \<notin> fst ` set reference_models \<longrightarrow>
      resolve_reference_model_metadata lmr rmp =
        Inl (UnknownReferenceModelError lmr
               [''chat-bison@001'', ''llama-2-13b'', ''llama-2-13b-chat'', ''llama-2-7b'',
                ''llama-2-7b-chat'', ''t5-large'', ''t5-small'', ''t5-xl'', ''t5-xxl'',
                ''text-bison@001''])) \<and>
   sorted [''chat-bison@001'', ''llama-2-13b'', ''llama-2-13b-chat'', ''llama-2-7b'',
           ''llama-2-7b-chat'', ''t5-large'', ''t5-small'', ''t5-xl'', ''t5-xxl'',
           ''text-bison@001''] \<and>
   set [''chat-bison@001'', ''llama-2-13b'', ''llama-2-13b-chat'', ''llama-2-7b'',
        ''llama-2-7b-chat'', ''t5-large'', ''t5-small'', ''t5-xl'', ''t5-xxl'',
        ''text-bison@001''] =
     {k. \<exists>m. (k, m) \<in> set reference_models \<and> is_supported m} \<and>
   (\<forall>k \<in> {''palm-tiny'', ''gecko'', ''otter'', ''bison'', ''elephant''}.
      \<exists>m. (k, m) \<in> set reference_models \<and> \<not> is_supported m)"
proof (intro conjI impI)
  assume "(k, m) \<in> set reference_models \<and> reference_model_key lmr = k"
  then have "map_of reference_models (reference_model_key lmr) = Some m"
    using distinct_reference_model_keys by (simp add: map_of_is_SomeI)
  then show "resolve_reference_model_metadata lmr rmp =
        Inr \<lparr>out_large_model_reference = large_model_reference m,
             out_reference_model_path = or_str rmp (reference_model_path m),
             out_reward_model_reference = reward_model_reference m,
             out_reward_model_path = reward_model_path m\<rparr>"
    by (rule resolve_hit)
next
  assume "reference_model_key lmr \<notin> fst ` set reference_models"
  then have "map_of reference_models (reference_model_key lmr) = None"
    by (simp add: map_of_eq_None_iff)
  then show "resolve_reference_model_metadata lmr rmp =
        Inl (UnknownReferenceModelError lmr
               [''chat-bison@001'', ''llama-2-13b'', ''llama-2-13b-chat'', ''llama-2-7b'',
                ''llama-2-7b-chat'', ''t5-large'', ''t5-small'', ''t5-xl'', ''t5-xxl'',
                ''text-bison@001''])"
    using resolve_miss [of lmr rmp] by (simp add: sort_supported_models)
next
  have "sorted (sort supported_models)" by simp
  then show "sorted [''chat-bison@001'', ''llama-2-13b'', ''llama-2-13b-chat'', ''llama-2-7b'',
           ''llama-2-7b-chat'', ''t5-large'', ''t5-small'', ''t5-xl'', ''t5-xxl'',
           ''text-bison@001'']"
    by (simp only: sort_supported_models)
next
  have "set (sort supported_models) =
      {k. \<exists>m. (k, m) \<in> set reference_models \<and> is_supported m}"
    by (simp add: set_supported_models)
  then show "set [''chat-bison@001'', ''llama-2-13b'', ''llama-2-13b-chat'', ''llama-2-7b'',
        ''llama-2-7b-chat'', ''t5-large'', ''t5-small'', ''t5-xl'', ''t5-xxl'',
        ''text-bison@001''] =
     {k. \<exists>m. (k, m) \<in> set reference_models \<and> is_supported m}"
    by (simp only: sort_supported_models)
next
  have "\<forall>k \<in> set [''palm-tiny'', ''gecko'', ''otter'', ''bison'', ''elephant''].
      \<exists>e \<in> set reference_models. fst e = k \<and> \<not> is_supported (snd e)"
    by code_simp
  then show "\<forall>k \<in> {''palm-tiny'', ''gecko'', ''otter'', ''bison'', ''elephant''}.
      \<exists>m. (k, m) \<in> set reference_models \<and> \<not> is_supported m"
    by (simp only: list.set ball_simps) (metis prod.collapse)
qed

theorem unsupported_entries_reachable_witness:
  "resolve_reference_model_metadata ''PALM_TINY'' None =
     Inr \<lparr>out_large_model_reference = ''PALM_TINY'',
          out_reference_model_path =
            ''gs://vertex-rlhf-restricted/pretrained_models/palm/t5x_palm_tiny/'',
          out_reward_model_reference = ''PALM_TINY'',
          out_reward_model_path =
            ''gs://vertex-rlhf-restricted/pretrained_models/palm/t5x_palm_tiny/''\<rparr> \<and>
   resolve_reference_model_metadata ''palm'' None =
     Inl (UnknownReferenceModelError ''palm''
            [''chat-bison@001'', ''llama-2-13b'', ''llama-2-13b-chat'', ''llama-2-7b'',
             ''llama-2-7b-chat'', ''t5-large'', ''t5-small'', ''t5-xl'', ''t5-xxl'',
             ''text-bison@001''])"
proof -
  have entry: "(''palm-tiny'', reference_model_metadata ''PALM_TINY''
        ''gs://vertex-rlhf-restricted/pretrained_models/palm/t5x_palm_tiny/''
        ''PALM_TINY''
        ''gs://vertex-rlhf-restricted/pretrained_models/palm/t5x_palm_tiny/'' False)
      \<in> set reference_models"
    by (simp add: reference_models_def)
  have key: "reference_model_key ''PALM_TINY'' = ''palm-tiny''" by code_simp
  have miss: "reference_model_key ''palm'' \<notin> fst ` set reference_models" by code_simp
  show ?thesis
    using unsupported_entries_reachable [where lmr = "''PALM_TINY''" and k = "''palm-tiny''"
        and rmp = None
        and m = "reference_model_metadata ''PALM_TINY''
          ''gs://vertex-rlhf-restricted/pretrained_models/palm/t5x_palm_tiny/''
          ''PALM_TINY''
          ''gs://vertex-rlhf-restricted/pretrained_models/palm/t5x_palm_tiny/'' False"]
      unsupported_entries_reachable [where lmr = "''palm''" and rmp = None]
      entry key miss
    by (simp add: reference_model_metadata_def)
qed

text \<open>
  C7. The key is the reference lower-cased with every underscore turned into a hyphen; a
  hit returns the entry's fields, with the reference model path replaced by the override
  exactly when one is given and is not empty; \<open>LLAMA_2_7B_CHAT\<close> has the reward model
  reference and reward model path of \<open>LLAMA_2_7B\<close>.
\<close>

theorem reference_model_lookup:
  "reference_model_key lmr =
     map (\<lambda>c. if c = CHR ''_'' then CHR ''-'' else lower_char c) lmr \<and>
   lower ''ABCDEFGHIJKLMNOPQRSTUVWXYZ'' = ''abcdefghijklmnopqrstuvwxyz'' \<and>
   lower ''abcdefghijklmnopqrstuvwxyz0123456789-_@'' =
     ''abcdefghijklmnopqrstuvwxyz0123456789-_@'' \<and>
   (map_of reference_models (reference_model_key lmr) = Some m \<longrightarrow>
      resolve_reference_model_metadata lmr rmp =
        Inr \<lparr>out_large_model_reference = large_model_reference m,
             out_reference_model_path =
               (case rmp of None \<Rightarrow> reference_model_path m
                | Some p \<Rightarrow> if p = [] then reference_model_path m else p),
             out_reward_model_reference = reward_model_reference m,
             out_reward_model_path = reward_model_path m\<rparr>) \<and>
   resolve_reference_model_metadata ''LLAMA_2_7B_CHAT'' None =
     Inr \<lparr>out_large_model_reference = ''LLAMA_2_7B_CHAT'',
          out_reference_model_path =
            ''gs://vertex-rlhf-restricted/pretrained_models/llama/t5x_llama_2_7b_chat/'',
          out_reward_model_reference = ''LLAMA_2_7B'',
          out_reward_model_path =
            ''gs://vertex-rlhf-restricted/pretrained_models/llama/t5x_llama_2_7b/''\<rparr> \<and>
   resolve_reference_model_metadata ''LLAMA_2_7B'' None =
     Inr \<lparr>out_large_model_reference = ''LLAMA_2_7B'',
          out_reference_model_path =
            ''gs://vertex-rlhf-restricted/pretrained_models/llama/t5x_llama_2_7b/'',
          out_reward_model_reference = ''LLAMA_2_7B'',
          out_reward_model_path =
            ''gs://vertex-rlhf-restricted/pretrained_models/llama/t5x_llama_2_7b/''\<rparr>"
proof (intro conjI impI)
  show "reference_model_key lmr =
     map (\<lambda>c. if c = CHR ''_'' then CHR ''-'' else lower_char c) lmr"
    by (rule reference_model_key_pointwise)
  show "lower ''ABCDEFGHIJKLMNOPQRSTUVWXYZ'' = ''abcdefghijklmnopqrstuvwxyz''"
    by code_simp
  show "lower ''abcdefghijklmnopqrstuvwxyz0123456789-_@'' =
     ''abcdefghijklmnopqrstuvwxyz0123456789-_@''"
    by code_simp
  show "resolve_reference_model_metadata lmr rmp =
        Inr \<lparr>out_large_model_reference = large_model_reference m,
             out_reference_model_path =
               (case rmp of None \<Rightarrow> reference_model_path m
                | Some p \<Rightarrow> if p = [] then reference_model_path m else p),
             out_reward_model_reference = reward_model_reference m,
             out_reward_model_path = reward_model_path m\<rparr>"
    if "map_of reference_models (reference_model_key lmr) = Some m"
    using resolve_hit [OF that, of rmp] by (cases rmp) auto
  show "resolve_reference_model_metadata ''LLAMA_2_7B_CHAT'' None =
     Inr \<lparr>out_large_model_reference = ''LLAMA_2_7B_CHAT'',
          out_reference_model_path =
            ''gs://vertex-rlhf-restricted/pretrained_models/llama/t5x_llama_2_7b_chat/'',
          out_reward_model_reference = ''LLAMA_2_7B'',
          out_reward_model_path =
            ''gs://vertex-rlhf-restricted/pretrained_models/llama/t5x_llama_2_7b/''\<rparr>"
    by code_simp
  show "resolve_reference_model_metadata ''LLAMA_2_7B'' None =
     Inr \<lparr>out_large_model_reference = ''LLAMA_2_7B'',
          out_reference_model_path =
            ''gs://vertex-rlhf-restricted/pretrained_models/llama/t5x_llama_2_7b/'',
          out_reward_model_reference = ''LLAMA_2_7B'',
          out_reward_model_path =
            ''gs://vertex-rlhf-restricted/pretrained_models/llama/t5x_llama_2_7b/''\<rparr>"
    by code_simp
qed

theorem reference_model_lookup_witness:
  "resolve_reference_model_metadata ''T5_XXL'' (Some ''gs://my-bucket/tuned/'') =
     Inr \<lparr>out_large_model_reference = ''T5_XXL'',
          out_reference_model_path = ''gs://my-bucket/tuned/'',
          out_reward_model_reference = ''T5_XL'',
          out_reward_model_path = ''gs://t5-data/pretrained_models/t5x/t5_1_1_xl''\<rparr> \<and>
   resolve_reference_model_metadata ''T5_XXL'' (Some []) =
     Inr \<lparr>out_large_model_reference = ''T5_XXL'',
          out_reference_model_path = ''gs://t5-data/pretrained_models/t5x/flan_t5_xxl/'',
          out_reward_model_reference = ''T5_XL'',
          out_reward_model_path = ''gs://t5-data/pretrained_models/t5x/t5_1_1_xl''\<rparr>"
proof -
  have hit: "map_of reference_models (reference_model_key ''T5_XXL'') =
      Some (reference_model_metadata ''T5_XXL''
        ''gs://t5-data/pretrained_models/t5x/flan_t5_xxl/''
        ''T5_XL'' ''gs://t5-data/pretrained_models/t5x/t5_1_1_xl'' True)"
    by code_simp
  show ?thesis
    using reference_model_lookup [where lmr = "''T5_XXL''"
        and rmp = "Some ''gs://my-bucket/tuned/''"
        and m = "reference_model_metadata ''T5_XXL''
          ''gs://t5-data/pretrained_models/t5x/flan_t5_xxl/''
          ''T5_XL'' ''gs://t5-data/pretrained_models/t5x/t5_1_1_xl'' True"]
      reference_model_lookup [where lmr = "''T5_XXL''" and rmp = "Some []"
        and m = "reference_model_metadata ''T5_XXL''
          ''gs://t5-data/pretrained_models/t5x/flan_t5_xxl/''
          ''T5_XL'' ''gs://t5-data/pretrained_models/t5x/t5_1_1_xl'' True"]
      hit
    by (simp add: reference_model_metadata_def)
qed

section \<open>Instruction of chat models\<close>

lemma starts_with_iff: "starts_with n h \<longleftrightarrow> (\<exists>post. h = n @ post)"
  by (induction n h rule: starts_with.induct) auto

lemma str_in_iff: "str_in n h \<longleftrightarrow> (\<exists>pre post. h = pre @ n @ post)"
proof (induction h)
  case Nil
  then show ?case by (auto simp: starts_with_iff)
next
  case (Cons x xs)
  show ?case
  proof
    assume "str_in n (x # xs)"
    then consider "starts_with n (x # xs)" | "str_in n xs" by auto
    then show "\<exists>pre post. x # xs = pre @ n @ post"
    proof cases
      case 1
      then obtain post where "x # xs = n @ post" by (auto simp: starts_with_iff)
      then have "x # xs = [] @ n @ post" by simp
      then show ?thesis by blast
    next
      case 2
      with Cons.IH obtain pre post where "xs = pre @ n @ post" by blast
      then have "x # xs = (x # pre) @ n @ post" by simp
      then show ?thesis by blast
    qed
  next
    assume "\<exists>pre post. x # xs = pre @ n @ post"
    then obtain pre post where e: "x # xs = pre @ n @ post" by blast
    show "str_in n (x # xs)"
    proof (cases pre)
      case Nil
      with e have "starts_with n (x # xs)" by (auto simp: starts_with_iff)
      then show ?thesis by simp
    next
      case (Cons p ps)
      with e have "xs = ps @ n @ post" by simp
      with Cons.IH have "str_in n xs" by blast
      then show ?thesis by simp
    qed
  qed
qed

lemma lower_char_eq_lower:
  assumes "97 \<le> (of_char l :: nat)" "(of_char l :: nat) \<le> 122"
  shows "lower_char x = l \<longleftrightarrow> x = l \<or> x = char_of (of_char l - 32 :: nat)"
proof
  assume h: "lower_char x = l"
  show "x = l \<or> x = char_of (of_char l - 32 :: nat)"
  proof (cases "x = l")
    case True then show ?thesis by simp
  next
    case False
    with h have up: "l = char_of (of_char x + 32 :: nat)"
      and rng: "(65 \<le> (of_char x :: nat) \<and> (of_char x :: nat) \<le> 90) \<or>
           (192 \<le> (of_char x :: nat) \<and> (of_char x :: nat) \<le> 222)"
      by (auto simp: lower_char_def Let_def split: if_splits)
    from up have "(of_char l :: nat) = (of_char x + 32) mod 256" by simp
    with rng have "(of_char l :: nat) - 32 = of_char x" by auto
    then have "char_of (of_char l - 32 :: nat) = x" by simp
    then show ?thesis by simp
  qed
next
  assume "x = l \<or> x = char_of (of_char l - 32 :: nat)"
  then show "lower_char x = l"
  proof
    assume "x = l" with assms show ?thesis by (auto simp: lower_char_def Let_def)
  next
    assume x: "x = char_of (of_char l - 32 :: nat)"
    from assms have "(of_char x :: nat) = of_char l - 32" unfolding x by simp
    with assms show ?thesis by (auto simp: lower_char_def Let_def)
  qed
qed

lemma lower_char_chat:
  "lower_char x = CHR ''c'' \<longleftrightarrow> x \<in> {CHR ''c'', CHR ''C''}"
  "lower_char x = CHR ''h'' \<longleftrightarrow> x \<in> {CHR ''h'', CHR ''H''}"
  "lower_char x = CHR ''a'' \<longleftrightarrow> x \<in> {CHR ''a'', CHR ''A''}"
  "lower_char x = CHR ''t'' \<longleftrightarrow> x \<in> {CHR ''t'', CHR ''T''}"
proof -
  have caps: "char_of (of_char CHR ''c'' - 32 :: nat) = CHR ''C''"
    "char_of (of_char CHR ''h'' - 32 :: nat) = CHR ''H''"
    "char_of (of_char CHR ''a'' - 32 :: nat) = CHR ''A''"
    "char_of (of_char CHR ''t'' - 32 :: nat) = CHR ''T''"
    by code_simp+
  show "lower_char x = CHR ''c'' \<longleftrightarrow> x \<in> {CHR ''c'', CHR ''C''}"
    using lower_char_eq_lower [of "CHR ''c''" x] caps(1) by simp
  show "lower_char x = CHR ''h'' \<longleftrightarrow> x \<in> {CHR ''h'', CHR ''H''}"
    using lower_char_eq_lower [of "CHR ''h''" x] caps(2) by simp
  show "lower_char x = CHR ''a'' \<longleftrightarrow> x \<in> {CHR ''a'', CHR ''A''}"
    using lower_char_eq_lower [of "CHR ''a''" x] caps(3) by simp
  show "lower_char x = CHR ''t'' \<longleftrightarrow> x \<in> {CHR ''t'', CHR ''T''}"
    using lower_char_eq_lower [of "CHR ''t''" x] caps(4) by simp
qed


lemma lower_has_chat:
  "(\<exists>pre post. lower s = pre @ ''chat'' @ post) \<longleftrightarrow>
   (\<exists>pre c h a t post. s = pre @ [c, h, a, t] @ post \<and>
      c \<in> {CHR ''c'', CHR ''C''} \<and> h \<in> {CHR ''h'', CHR ''H''} \<and>
      a \<in> {CHR ''a'', CHR ''A''} \<and> t \<in> {CHR ''t'', CHR ''T''})"
proof
  assume "\<exists>pre post. lower s = pre @ ''chat'' @ post"
  then obtain pre post where "map lower_char s = pre @ ''chat'' @ post"
    by (auto simp: lower_def)
  then obtain us c h a t ws where s: "s = us @ c # h # a # t # ws"
    and l': "CHR ''c'' = lower_char c" "CHR ''h'' = lower_char h"
      "CHR ''a'' = lower_char a" "CHR ''t'' = lower_char t"
    by (auto simp: map_eq_append_conv map_eq_Cons_conv)
  from l' have l: "lower_char c = CHR ''c''" "lower_char h = CHR ''h''"
      "lower_char a = CHR ''a''" "lower_char t = CHR ''t''"
    by simp_all
  from s have v: "s = us @ [c, h, a, t] @ ws" by simp
  from l have "c \<in> {CHR ''c'', CHR ''C''} \<and> h \<in> {CHR ''h'', CHR ''H''} \<and>
      a \<in> {CHR ''a'', CHR ''A''} \<and> t \<in> {CHR ''t'', CHR ''T''}"
    by (simp only: lower_char_chat)
  with v show "\<exists>pre c h a t post. s = pre @ [c, h, a, t] @ post \<and>
      c \<in> {CHR ''c'', CHR ''C''} \<and> h \<in> {CHR ''h'', CHR ''H''} \<and>
      a \<in> {CHR ''a'', CHR ''A''} \<and> t \<in> {CHR ''t'', CHR ''T''}"
    by blast
next
  assume "\<exists>pre c h a t post. s = pre @ [c, h, a, t] @ post \<and>
      c \<in> {CHR ''c'', CHR ''C''} \<and> h \<in> {CHR ''h'', CHR ''H''} \<and>
      a \<in> {CHR ''a'', CHR ''A''} \<and> t \<in> {CHR ''t'', CHR ''T''}"
  then obtain pre c h a t post where s: "s = pre @ [c, h, a, t] @ post"
    and m: "c \<in> {CHR ''c'', CHR ''C''}" "h \<in> {CHR ''h'', CHR ''H''}"
      "a \<in> {CHR ''a'', CHR ''A''}" "t \<in> {CHR ''t'', CHR ''T''}"
    by blast
  from m have "lower_char c = CHR ''c''" "lower_char h = CHR ''h''"
      "lower_char a = CHR ''a''" "lower_char t = CHR ''t''"
    by (simp_all only: lower_char_chat)
  with s have "lower s = map lower_char pre @ ''chat'' @ map lower_char post"
    by (simp add: lower_def)
  then show "\<exists>pre post. lower s = pre @ ''chat'' @ post" by blast
qed

text \<open>
  C8. The instruction is empty when the reference holds the letters c, h, a, t in a row,
  each in either case; otherwise it is the instruction given, and empty when none is
  given. \<open>chat-bison@001\<close> gives the empty string, \<open>BISON\<close> gives \<open>Be terse\<close> back.
\<close>

theorem resolve_instruction_chat:
  "resolve_instruction lmr instruction =
     (if \<exists>pre c h a t post. lmr = pre @ [c, h, a, t] @ post \<and>
            c \<in> {CHR ''c'', CHR ''C''} \<and> h \<in> {CHR ''h'', CHR ''H''} \<and>
            a \<in> {CHR ''a'', CHR ''A''} \<and> t \<in> {CHR ''t'', CHR ''T''}
      then []
      else (case instruction of None \<Rightarrow> [] | Some s \<Rightarrow> s)) \<and>
   resolve_instruction ''chat-bison@001'' (Some ''Be terse'') = [] \<and>
   resolve_instruction ''BISON'' (Some ''Be terse'') = ''Be terse''"
proof (intro conjI)
  define P where "P \<longleftrightarrow> (\<exists>pre c h a t post. lmr = pre @ [c, h, a, t] @ post \<and>
            c \<in> {CHR ''c'', CHR ''C''} \<and> h \<in> {CHR ''h'', CHR ''H''} \<and>
            a \<in> {CHR ''a'', CHR ''A''} \<and> t \<in> {CHR ''t'', CHR ''T''})"
  have iff: "str_in ''chat'' (lower lmr) = P"
    unfolding P_def str_in_iff lower_has_chat ..
  have "or_str instruction [] = (case instruction of None \<Rightarrow> [] | Some s \<Rightarrow> s)"
    by (cases instruction) auto
  then have "resolve_instruction lmr instruction =
     (if P then [] else (case instruction of None \<Rightarrow> [] | Some s \<Rightarrow> s))"
    by (simp add: resolve_instruction_def iff)
  then show "resolve_instruction lmr instruction =
     (if \<exists>pre c h a t post. lmr = pre @ [c, h, a, t] @ post \<and>
            c \<in> {CHR ''c'', CHR ''C''} \<and> h \<in> {CHR ''h'', CHR ''H''} \<and>
            a \<in> {CHR ''a'', CHR ''A''} \<and> t \<in> {CHR ''t'', CHR ''T''}
      then []
      else (case instruction of None \<Rightarrow> [] | Some s \<Rightarrow> s))"
    unfolding P_def .
  show "resolve_instruction ''chat-bison@001'' (Some ''Be terse'') = []"
    by code_simp
  show "resolve_instruction ''BISON'' (Some ''Be terse'') = ''Be terse''"
    by code_simp
qed

theorem resolve_instruction_chat_witness:
  "resolve_instruction ''LLAMA_2_7B_Chat'' (Some ''Be terse'') = [] \<and>
   resolve_instruction ''T5_XXL'' None = []"
proof -
  have "''LLAMA_2_7B_Chat'' = ''LLAMA_2_7B_'' @ [CHR ''C'', CHR ''h'', CHR ''a'', CHR ''t''] @ []"
    by simp
  then have yes: "\<exists>pre c h a t post. ''LLAMA_2_7B_Chat'' = pre @ [c, h, a, t] @ post \<and>
            c \<in> {CHR ''c'', CHR ''C''} \<and> h \<in> {CHR ''h'', CHR ''H''} \<and>
            a \<in> {CHR ''a'', CHR ''A''} \<and> t \<in> {CHR ''t'', CHR ''T''}"
    by blast
  have "\<not> str_in ''chat'' (lower ''T5_XXL'')" by code_simp
  then have no: "\<not> (\<exists>pre c h a t post. ''T5_XXL'' = pre @ [c, h, a, t] @ post \<and>
            c \<in> {CHR ''c'', CHR ''C''} \<and> h \<in> {CHR ''h'', CHR ''H''} \<and>
            a \<in> {CHR ''a'', CHR ''A''} \<and> t \<in> {CHR ''t'', CHR ''T''})"
    unfolding str_in_iff lower_has_chat .
  show ?thesis
    using resolve_instruction_chat [where lmr = "''LLAMA_2_7B_Chat''"
            and instruction = "Some ''Be terse''"]
      resolve_instruction_chat [where lmr = "''T5_XXL''" and instruction = None]
      yes no
    by (simp del: append.simps append_Cons append_Nil)
qed

section \<open>Dependence on the world\<close>

text \<open>
  C9, as stated, fails: \<open>resolve_upload_location\<close> without a location returns the region
  of the environment, so the same call gives \<open>us-central1\<close> in one world and
  \<open>europe-west4\<close> in another, and it is not the display name component; and the default
  display name of \<open>BISON\<close> begins with \<open>bison\<close>, the reference lower-cased.
\<close>

theorem determinism_counterexample:
  "run world_a (Resolve_upload_location None) = Inr (Str_out ''us-central1'') \<and>
   run world_b (Resolve_upload_location None) = Inr (Str_out ''europe-west4'') \<and>
   run world_a (Resolve_upload_location None) \<noteq> run world_b (Resolve_upload_location None) \<and>
   run world_a (Resolve_model_display_name ''BISON'' None) =
     Inr (Str_out ''bison-2023-09-05-07-30-02'')"
  by code_simp

text \<open>
  C9, amended. A call that does not read the world gives the same value or the same error
  in every world. The calls that read it are the display name without a non-empty name,
  which is the lower-cased reference, a hyphen and the clock as
  \<open>%Y-%m-%d-%H-%M-%S\<close>, and the upload location without a non-empty location, which is
  the variable \<open>CLOUD_ML_REGION\<close> of the environment or a \<open>KeyError\<close>. Nothing is said
  here of a call of \<open>resolve_machine_spec\<close> that fails.
\<close>

theorem determinism_outside_world_reads:
  "(\<not> reads_world c \<longrightarrow> run w1 c = run w2 c) \<and>
   (\<not> truthy_str model_display_name \<longrightarrow>
      run w (Resolve_model_display_name lmr model_display_name) =
        Inr (Str_out (lower lmr @ ''-'' @ strftime (clock w)))) \<and>
   (\<not> truthy_str upload_location \<longrightarrow>
      run w (Resolve_upload_location upload_location) =
        (case environ w ''CLOUD_ML_REGION'' of
           None \<Rightarrow> Inl (KeyError ''CLOUD_ML_REGION'')
         | Some region \<Rightarrow> Inr (Str_out region)))"
proof (intro conjI impI)
  assume "\<not> reads_world c"
  then show "run w1 c = run w2 c"
    by (cases c)
       (auto simp: resolve_machine_spec_def resolve_upload_location_def
          resolve_model_display_name_def Let_def
          elim!: truthy_str.elims)
next
  assume "\<not> truthy_str model_display_name"
  then show "run w (Resolve_model_display_name lmr model_display_name) =
        Inr (Str_out (lower lmr @ ''-'' @ strftime (clock w)))"
    by (cases model_display_name) (auto simp: resolve_model_display_name_def)
next
  assume "\<not> truthy_str upload_location"
  then show "run w (Resolve_upload_location upload_location) =
        (case environ w ''CLOUD_ML_REGION'' of
           None \<Rightarrow> Inl (KeyError ''CLOUD_ML_REGION'')
         | Some region \<Rightarrow> Inr (Str_out region))"
    by (auto simp: resolve_upload_location_def split: option.splits)
qed

theorem determinism_outside_world_reads_witness:
  "run world_a (Resolve_upload_location (Some ''asia-east1'')) =
     run world_b (Resolve_upload_location (Some ''asia-east1'')) \<and>
   run world_a (Resolve_machine_spec ''us-central1'' False) =
     run world_b (Resolve_machine_spec ''us-central1'' False) \<and>
   run world_a (Resolve_model_display_name ''BISON'' (Some ''my-model'')) =
     run world_b (Resolve_model_display_name ''BISON'' (Some ''my-model'')) \<and>
   run world_b (Resolve_model_display_name ''BISON'' None) =
     Inr (Str_out ''bison-2024-11-21-16-04-59'') \<and>
   run world_b (Resolve_upload_location (Some [])) = Inr (Str_out ''europe-west4'')"
proof -
  have r: "\<not> reads_world (Resolve_upload_location (Some ''asia-east1''))"
    "\<not> reads_world (Resolve_machine_spec ''us-central1'' False)"
    "\<not> reads_world (Resolve_model_display_name ''BISON'' (Some ''my-model''))"
    by (simp_all add: tpu_regions_def gpu_regions_def)
  have name: "lower ''BISON'' @ ''-'' @ strftime (clock world_b) = ''bison-2024-11-21-16-04-59''"
    by code_simp
  have env: "environ world_b ''CLOUD_ML_REGION'' = Some ''europe-west4''"
    by (simp add: world_b_def)
  have a: "run world_a (Resolve_upload_location (Some ''asia-east1'')) =
      run world_b (Resolve_upload_location (Some ''asia-east1''))"
    using determinism_outside_world_reads
            [where c = "Resolve_upload_location (Some ''asia-east1'')"
             and ?w1.0 = world_a and ?w2.0 = world_b] r(1)
    by blast
  have b: "run world_a (Resolve_machine_spec ''us-central1'' False) =
      run world_b (Resolve_machine_spec ''us-central1'' False)"
    using determinism_outside_world_reads
            [where c = "Resolve_machine_spec ''us-central1'' False"
             and ?w1.0 = world_a and ?w2.0 = world_b] r(2)
    by blast
  have c: "run world_a (Resolve_model_display_name ''BISON'' (Some ''my-model'')) =
      run world_b (Resolve_model_display_name ''BISON'' (Some ''my-model''))"
    using determinism_outside_world_reads
            [where c = "Resolve_model_display_name ''BISON'' (Some ''my-model'')"
             and ?w1.0 = world_a and ?w2.0 = world_b] r(3)
    by blast
  have "run world_b (Resolve_model_display_name ''BISON'' None) =
      Inr (Str_out (lower ''BISON'' @ ''-'' @ strftime (clock world_b)))"
    using determinism_outside_world_reads
            [where w = world_b and lmr = "''BISON''" and model_display_name = None]
    by simp
  then have d: "run world_b (Resolve_model_display_name ''BISON'' None) =
      Inr (Str_out ''bison-2024-11-21-16-04-59'')"
    by (simp only: name)
  have e: "run world_b (Resolve_upload_location (Some [])) = Inr (Str_out ''europe-west4'')"
    using determinism_outside_world_reads
            [where w = world_b and upload_location = "Some []"]
    by (simp add: env)
  from a b c d e show ?thesis by (intro conjI)
qed

end
